theory Spec2Isabelle
  imports Complex_Main "HOL-Library.Char_ord" "HOL-Library.Sublist"
begin

section \<open>Product code generator (src/utils/generateProductCode.ts)\<close>

text \<open>
  A JavaScript string is a sequence of code units, and \<open>a > b\<close> on two one-unit strings
  compares the units. The scanning loops only index, compare and slice, so they are
  modelled over any linearly ordered unit type; concrete names are \<open>string\<close>s.
  Indices are \<open>int\<close>, because \<open>left\<close> starts at \<open>-1\<close>.
\<close>

text \<open>
  The loop test \<open>str[right] > str[right - 1]\<close>. At \<open>right = 0\<close> the right operand is
  \<open>str[-1]\<close>, which is \<open>undefined\<close>; both sides are then compared as numbers, both are
  \<open>NaN\<close>, and the comparison is false. The same holds for any index out of range.
\<close>

definition gtPrev :: "'a::linorder list \<Rightarrow> int \<Rightarrow> bool" where
  "gtPrev str right =
     (0 < right \<and> right < int (length str) \<and> str ! nat (right - 1) < str ! nat right)"

function lengthLoop :: "'a::linorder list \<Rightarrow> int \<Rightarrow> int \<Rightarrow> int \<Rightarrow> int" where
  "lengthLoop str maxLength left right =
     (if right < int (length str) then
        (if gtPrev str right then lengthLoop str maxLength left (right + 1)
         else lengthLoop str (max maxLength (right - left - 1)) (right - 1) (right + 1))
      else max maxLength (right - left - 1))"
  by pat_completeness auto
termination
  by (relation "measure (\<lambda>(str, m, l, r). nat (int (length str) - r))") auto

declare lengthLoop.simps [simp del]

definition findLongestIncreasingSubstringsLength :: "'a::linorder list \<Rightarrow> int" where
  "findLongestIncreasingSubstringsLength str = lengthLoop str 0 (- 1) 0"

record 'a results =
  substring :: "'a list"
  startIndex :: int
  endIndex :: int

text \<open>
  \<open>String.prototype.substring(start, end)\<close>: each argument is clamped to
  \<open>[0, length]\<close> and the two are swapped when \<open>start > end\<close>.
\<close>

definition jsSubstring :: "'a list \<Rightarrow> int \<Rightarrow> int \<Rightarrow> 'a list" where
  "jsSubstring s start end' =
     (let n = int (length s);
          a = min (max start 0) n;
          b = min (max end' 0) n;
          from = min a b;
          to = max a b
      in take (nat (to - from)) (drop (nat from) s))"

text \<open>
  The block that the source writes twice (inside the loop and after it): append the run
  \<open>lowerStr.substring(left + 1, right)\<close>, set \<open>startIndex\<close> if it still holds the
  sentinel \<open>-1\<close>, overwrite \<open>endIndex\<close>.
\<close>

definition recordRun :: "'a list \<Rightarrow> int \<Rightarrow> int \<Rightarrow> 'a results \<Rightarrow> 'a results" where
  "recordRun lowerStr left right res =
     \<lparr> substring = substring res @ jsSubstring lowerStr (left + 1) right,
       startIndex = (if startIndex res = - 1 then left + 1 else startIndex res),
       endIndex = right - 1 \<rparr>"

function substringsLoop ::
  "'a::linorder list \<Rightarrow> int \<Rightarrow> 'a results \<Rightarrow> int \<Rightarrow> int \<Rightarrow> 'a results" where
  "substringsLoop lowerStr maxLength res left right =
     (if right < int (length lowerStr) then
        (if gtPrev lowerStr right then substringsLoop lowerStr maxLength res left (right + 1)
         else substringsLoop lowerStr maxLength
                (if right - left - 1 = maxLength then recordRun lowerStr left right res else res)
                (right - 1) (right + 1))
      else (if right - left - 1 = maxLength then recordRun lowerStr left right res else res))"
  by pat_completeness auto
termination
  by (relation "measure (\<lambda>(str, m, res, l, r). nat (int (length str) - r))") auto

declare substringsLoop.simps [simp del]

text \<open>
  \<open>toLowerCase\<close> is the host's Unicode lower-casing; the function takes it as its first
  argument. \<open>asciiLower\<close> is that function on ASCII names.
\<close>

definition findLongestIncreasingSubstrings ::
  "('a list \<Rightarrow> 'a::linorder list) \<Rightarrow> 'a list \<Rightarrow> 'a results" where
  "findLongestIncreasingSubstrings toLowerCase str =
     (let lowerStr = toLowerCase str;
          maxLength = findLongestIncreasingSubstringsLength lowerStr
      in substringsLoop lowerStr maxLength
           \<lparr> substring = [], startIndex = - 1, endIndex = 0 \<rparr> (- 1) 0)"

definition lowerChar :: "char \<Rightarrow> char" where
  "lowerChar c =
     (if CHR ''A'' \<le> c \<and> c \<le> CHR ''Z'' then char_of (of_char c + (32::nat)) else c)"

definition asciiLower :: "string \<Rightarrow> string" where
  "asciiLower s = map lowerChar s"

subsection \<open>Number to string\<close>

definition digitChar :: "nat \<Rightarrow> char" where
  "digitChar d = char_of (of_char (CHR ''0'') + d)"

fun showNat :: "nat \<Rightarrow> string" where
  "showNat n = (if n < 10 then [digitChar n] else showNat (n div 10) @ [digitChar (n mod 10)])"

declare showNat.simps [simp del]

definition showInt :: "int \<Rightarrow> string" where
  "showInt i = (if i < 0 then CHR ''-'' # showNat (nat (- i)) else showNat (nat i))"

subsection \<open>The code\<close>

text \<open>
  The MD5 digest and the clock are outside the repository: \<open>md5hex\<close> is the hex digest
  function and \<open>now\<close> the value of \<open>new Date().getTime()\<close>.
\<close>

definition generateHash :: "(string \<Rightarrow> string) \<Rightarrow> string \<Rightarrow> string" where
  "generateHash md5hex productName = jsSubstring (md5hex productName) 0 7"

definition generateProductCode ::
  "(string \<Rightarrow> string) \<Rightarrow> nat \<Rightarrow> (string \<Rightarrow> string) \<Rightarrow> string \<Rightarrow> string" where
  "generateProductCode md5hex now toLowerCase productName =
     (let r = findLongestIncreasingSubstrings toLowerCase productName;
          hash = generateHash md5hex productName;
          getTime = showNat now
      in hash @ getTime @ ''-'' @ showInt (startIndex r) @ substring r @ showInt (endIndex r))"

subsection \<open>The specification of the scan: maximal increasing runs\<close>

text \<open>
  Following the specification's words: the name splits into its maximal contiguous runs
  of strictly increasing characters (for \<open>aabcabcd\<close>: \<open>a\<close>, \<open>abc\<close>, \<open>abcd\<close>); the runs of
  greatest length are concatenated in order of appearance, with the start index of the
  first of them and the end index of the last.
\<close>

fun runs :: "'a::linorder list \<Rightarrow> 'a list list" where
  "runs [] = []"
| "runs [x] = [[x]]"
| "runs (x # y # ys) =
     (if x < y then (case runs (y # ys) of r # rs \<Rightarrow> (x # r) # rs | [] \<Rightarrow> [[x]])
      else [x] # runs (y # ys))"

text \<open>
  The runs are maximal: where one run ends and the next begins, the characters do not
  increase.
\<close>

fun maximalRuns :: "'a::linorder list list \<Rightarrow> bool" where
  "maximalRuns (r1 # r2 # rs) = (\<not> last r1 < hd r2 \<and> maximalRuns (r2 # rs))"
| "maximalRuns rs = True"

fun runsFrom :: "nat \<Rightarrow> 'a list list \<Rightarrow> (nat \<times> 'a list) list" where
  "runsFrom i [] = []"
| "runsFrom i (r # rs) = (i, r) # runsFrom (i + length r) rs"

fun longest :: "'a list list \<Rightarrow> nat" where
  "longest [] = 0"
| "longest (r # rs) = max (length r) (longest rs)"

definition tyingRuns :: "'a::linorder list \<Rightarrow> (nat \<times> 'a list) list" where
  "tyingRuns s =
     filter (\<lambda>(i, r). length r = longest (runs s)) (runsFrom 0 (runs s))"

definition longestRunsSpec :: "'a::linorder list \<Rightarrow> 'a results" where
  "longestRunsSpec s =
     \<lparr> substring = concat (map snd (tyingRuns s)),
       startIndex = int (fst (hd (tyingRuns s))),
       endIndex = int (fst (last (tyingRuns s)) + length (snd (last (tyingRuns s)))) - 1 \<rparr>"

text \<open>
  The step of the scan on a closed run, given with its start offset: a run of the target
  length is appended, the start index is set once, the end index every time.
\<close>

definition noteRun :: "nat \<Rightarrow> 'a results \<Rightarrow> nat \<times> 'a list \<Rightarrow> 'a results" where
  "noteRun M res ir =
     (if length (snd ir) = M then
        \<lparr> substring = substring res @ snd ir,
          startIndex = (if startIndex res = - 1 then int (fst ir) else startIndex res),
          endIndex = int (fst ir + length (snd ir)) - 1 \<rparr>
      else res)"

section \<open>Errors and the error normalizer (middleware/errorHandler.ts)\<close>

text \<open>
  A message is either a text that the repository writes, or the wording of a library
  (the schema library's default for a failed enum, the store's for a failed validator),
  which the repository does not fix.
\<close>

datatype wording = Wording string | LibraryWording

record issue =
  issuePath :: "string list"
  issueMessage :: wording

datatype ErrorTypes =
    VALIDATION_ERROR
  | AUTHENTICATION_ERROR
  | AUTHORIZATION_ERROR
  | NOT_FOUND_ERROR
  | DUPLICATE_ERROR
  | DATABASE_ERROR
  | INTERNAL_SERVER_ERROR

text \<open>
  What a handler or the store can throw: the schema library's \<open>ZodError\<close> with its
  issues; the store's \<open>ValidationError\<close> (failed validators by path), \<open>CastError\<close>
  (path, kind, value) and server errors (the duplicate-key error has code 11000 and the
  key and value in conflict; any other has its code and message); the repository's
  \<open>AppError\<close> (message, status code, code); any other error by name, message and the
  status code it may carry.
\<close>

datatype error =
    ZodError "issue list"
  | ValidationError "(string \<times> wording) list"
  | CastError string string string
  | DuplicateKeyError string string
  | ServerError nat string
  | AppError string nat "string option"
  | OtherError string string "nat option"

datatype errcode = CodeString string | CodeNumber nat

record detail =
  field :: string
  detailMessage :: wording

record reqInfo =
  reqPath :: string
  reqMethod :: string


section \<open>Documents of the store (models/category.ts, models/product.ts)\<close>

text \<open>
  Identifiers are the store's ObjectIds, written as 24 hexadecimal digits; times are
  milliseconds. Prices and discounts are the JSON numbers of the request, which are
  rationals; the store keeps and compares them, it does not compute with them.
\<close>

record category =
  c_id :: string
  c_name :: string
  c_description :: "string option"
  c_createdAt :: nat
  c_updatedAt :: nat

record product =
  p_id :: string
  p_name :: string
  p_description :: string
  p_price :: rat
  p_discount :: rat
  p_image :: string
  p_status :: string
  p_productCode :: string
  p_category :: string
  p_categoryName :: "string option"
  p_createdAt :: nat
  p_updatedAt :: nat

record store =
  categories :: "category list"
  products :: "product list"

section \<open>Values of the listing handlers\<close>

text \<open>
  A value of the handler's \<open>page\<close> or \<open>limit\<close>: the string of the query, or the number
  that the handler writes as a default. Numbers are integers here; the quotient of the
  page count is the one place where JavaScript can leave them, with \<open>Infinity\<close> and
  \<open>NaN\<close> on a division by zero. Digit strings are read exactly (JavaScript rounds
  above \<open>2^53\<close>).
\<close>

datatype jsval = JString string | JNumber int

datatype number = Finite int | Infinity | NaN

record pagination =
  currentPage :: jsval
  totalPages :: number
  totalItems :: nat
  limit :: jsval
  hasNextPage :: bool
  hasPrevPage :: bool

section \<open>Responses\<close>

text \<open>
  Four shapes leave the service: the success envelope \<open>{success: true, message, data}\<close>;
  the error envelope of \<open>errorHandler\<close>,
  \<open>{success: false, error: {type, message, code?, details?}, timestamp, path, method}\<close>;
  the body \<open>{message, errors}\<close> that \<open>validate\<close> writes itself; and the body
  \<open>{success: false, message}\<close> of the guards in the category handlers. Each carries its
  status code. The timestamp, the stack trace of development mode and the \<open>pricing\<close>
  sub-object (floating point) are left out.
\<close>

datatype payload =
    NoData
  | OneProduct product
  | OneCategory category
  | ProductList "product list" pagination
  | CategoryList "category list" pagination

datatype response =
    Success nat string payload
  | ErrorEnvelope nat ErrorTypes string "errcode option" "detail list" string string
  | ValidationFailed nat string "detail list"
  | GuardFailed nat string

definition determineErrorType :: "nat \<Rightarrow> ErrorTypes" where
  "determineErrorType statusCode =
     (if statusCode = 400 then VALIDATION_ERROR
      else if statusCode = 401 then AUTHENTICATION_ERROR
      else if statusCode = 403 then AUTHORIZATION_ERROR
      else if statusCode = 404 then NOT_FOUND_ERROR
      else if statusCode = 409 then DUPLICATE_ERROR
      else if statusCode \<ge> 500 then INTERNAL_SERVER_ERROR
      else INTERNAL_SERVER_ERROR)"

fun joinDot :: "string list \<Rightarrow> string" where
  "joinDot [] = []"
| "joinDot [p] = p"
| "joinDot (p # q # ps) = p @ ''.'' @ joinDot (q # ps)"

definition formatZodError :: "issue list \<Rightarrow> string \<times> detail list" where
  "formatZodError issues =
     (''Validation failed'',
      map (\<lambda>i. \<lparr> field = joinDot (issuePath i), detailMessage = issueMessage i \<rparr>) issues)"

definition formatMongooseValidationError ::
  "(string \<times> wording) list \<Rightarrow> string \<times> detail list" where
  "formatMongooseValidationError errors =
     (''Database validation failed'',
      map (\<lambda>(path, msg). \<lparr> field = path, detailMessage = msg \<rparr>) errors)"

definition formatMongooseCastError :: "string \<Rightarrow> string \<Rightarrow> string \<times> detail list" where
  "formatMongooseCastError path kind =
     (''Invalid '' @ path,
      [\<lparr> field = path, detailMessage = Wording (''Invalid '' @ kind) \<rparr>])"

definition formatDuplicateKeyError :: "string \<Rightarrow> string \<Rightarrow> string \<times> detail list" where
  "formatDuplicateKeyError fld v =
     (''Duplicate value for '' @ fld,
      [\<lparr> field = fld,
         detailMessage = Wording (fld @ '' '' @ [CHR 39] @ v @ [CHR 39] @ '' already exists'') \<rparr>])"

text \<open>
  \<open>errorHandler\<close>, branch by branch in the order of the source. \<open>err.code\<close> is copied
  into the envelope when it is truthy; \<open>err.message || 'Internal Server Error'\<close> and
  \<open>err.statusCode || 500\<close> are the values of an error that no branch recognises.
\<close>

definition truthyCode :: "string option \<Rightarrow> errcode option" where
  "truthyCode c = (case c of None \<Rightarrow> None
                   | Some s \<Rightarrow> if s = [] then None else Some (CodeString s))"

fun errorHandler :: "error \<Rightarrow> reqInfo \<Rightarrow> response" where
  "errorHandler (ZodError issues) req =
     (case formatZodError issues of (message, details) \<Rightarrow>
        ErrorEnvelope 400 VALIDATION_ERROR message None details (reqPath req) (reqMethod req))"
| "errorHandler (ValidationError errors) req =
     (case formatMongooseValidationError errors of (message, details) \<Rightarrow>
        ErrorEnvelope 400 VALIDATION_ERROR message None details (reqPath req) (reqMethod req))"
| "errorHandler (CastError path kind v) req =
     (case formatMongooseCastError path kind of (message, details) \<Rightarrow>
        ErrorEnvelope 400 VALIDATION_ERROR message None details (reqPath req) (reqMethod req))"
| "errorHandler (DuplicateKeyError fld v) req =
     (case formatDuplicateKeyError fld v of (message, details) \<Rightarrow>
        ErrorEnvelope 409 DUPLICATE_ERROR message (Some (CodeNumber 11000)) details
          (reqPath req) (reqMethod req))"
| "errorHandler (AppError message statusCode code) req =
     ErrorEnvelope statusCode (determineErrorType statusCode) message (truthyCode code) []
       (reqPath req) (reqMethod req)"
| "errorHandler (ServerError code message) req =
     ErrorEnvelope 500 INTERNAL_SERVER_ERROR
       (if message = [] then ''Internal Server Error'' else message)
       (if code = 0 then None else Some (CodeNumber code)) [] (reqPath req) (reqMethod req)"
| "errorHandler (OtherError name message statusCode) req =
     (if name = ''MongoNetworkError'' then
        ErrorEnvelope 503 DATABASE_ERROR ''Database connection failed'' None []
          (reqPath req) (reqMethod req)
      else
        ErrorEnvelope
          (case statusCode of None \<Rightarrow> 500 | Some c \<Rightarrow> if c = 0 then 500 else c)
          INTERNAL_SERVER_ERROR
          (if message = [] then ''Internal Server Error'' else message)
          None [] (reqPath req) (reqMethod req))"

definition createValidationError :: "string \<Rightarrow> error" where
  "createValidationError message = AppError message 400 (Some ''VALIDATION_ERROR'')"

definition createNotFoundError :: "string \<Rightarrow> error" where
  "createNotFoundError resource = AppError (resource @ '' not found'') 404 (Some ''NOT_FOUND_ERROR'')"

section \<open>Schema validation (middleware/validation.ts)\<close>

text \<open>
  Modelled from the spec: \<open>mongoose.Types.ObjectId.isValid\<close> is the store's, not the
  repository's; the specification gives the native identifier as 24 hexadecimal
  characters.
\<close>

definition isHexDigit :: "char \<Rightarrow> bool" where
  "isHexDigit c =
     ((CHR ''0'' \<le> c \<and> c \<le> CHR ''9'') \<or> (CHR ''a'' \<le> c \<and> c \<le> CHR ''f'') \<or>
      (CHR ''A'' \<le> c \<and> c \<le> CHR ''F''))"

definition isValidObjectId :: "string \<Rightarrow> bool" where
  "isValidObjectId v = (length v = 24 \<and> list_all isHexDigit v)"

definition objectIdSchema :: "string list \<Rightarrow> string \<Rightarrow> issue list" where
  "objectIdSchema path v =
     (if isValidObjectId v then []
      else [\<lparr> issuePath = path, issueMessage = Wording ''Invalid ObjectId format'' \<rparr>])"

text \<open>Building blocks: an optional field, a failed check with its message.\<close>

definition optional :: "('a \<Rightarrow> issue list) \<Rightarrow> 'a option \<Rightarrow> issue list" where
  "optional check v = (case v of None \<Rightarrow> [] | Some x \<Rightarrow> check x)"

definition failing :: "bool \<Rightarrow> string list \<Rightarrow> wording \<Rightarrow> issue list" where
  "failing violated path msg =
     (if violated then [\<lparr> issuePath = path, issueMessage = msg \<rparr>] else [])"

definition isDigit :: "char \<Rightarrow> bool" where
  "isDigit c = (CHR ''0'' \<le> c \<and> c \<le> CHR ''9'')"

text \<open>The pattern \<open>/^\d+$/\<close>: one or more decimal digits and nothing else.\<close>

definition digitsOnly :: "string \<Rightarrow> bool" where
  "digitsOnly s = (s \<noteq> [] \<and> list_all isDigit s)"

text \<open>
  The query of a listing request as the framework hands it over: every parameter is
  absent or a string (repeated parameters, which arrive as arrays, are left out).
\<close>

record paginationQuery =
  q_page :: "string option"
  q_limit :: "string option"
  q_search :: "string option"
  q_category :: "string option"
  q_status :: "string option"
  q_sortBy :: "string option"
  q_sortOrder :: "string option"

definition paginationSchema :: "paginationQuery \<Rightarrow> issue list" where
  "paginationSchema q =
     optional (\<lambda>v. failing (\<not> digitsOnly v) [''query'', ''page'']
                     (Wording ''Page must be a positive number'')) (q_page q) @
     optional (\<lambda>v. failing (\<not> digitsOnly v) [''query'', ''limit'']
                     (Wording ''Limit must be a positive number'')) (q_limit q) @
     optional (objectIdSchema [''query'', ''category'']) (q_category q) @
     optional (\<lambda>v. failing (v \<notin> set [''In Stock'', ''Stock Out'']) [''query'', ''status'']
                     LibraryWording) (q_status q) @
     optional (\<lambda>v. failing (v \<notin> set [''name'', ''price'', ''createdAt'', ''updatedAt''])
                     [''query'', ''sortBy''] LibraryWording) (q_sortBy q) @
     optional (\<lambda>v. failing (v \<notin> set [''asc'', ''desc'']) [''query'', ''sortOrder'']
                     LibraryWording) (q_sortOrder q)"

text \<open>
  Request bodies. Each field that a schema names is modelled with the JSON type the
  schema asks for (a wrong JSON type is one more issue of the same kind). The update
  body also carries the keys \<open>productCode\<close>, \<open>category\<close> and \<open>categoryName\<close>:
  \<open>z.object\<close> leaves unknown keys out of its result without an issue, and they are
  paths of the product schema of the store.
\<close>

record createProductInput =
  cp_name :: string
  cp_description :: string
  cp_price :: rat
  cp_discount :: "rat option"
  cp_image :: string
  cp_status :: "string option"
  cp_categoryId :: string

record updateProductInput =
  up_name :: "string option"
  up_description :: "string option"
  up_price :: "rat option"
  up_discount :: "rat option"
  up_image :: "string option"
  up_status :: "string option"
  up_categoryId :: "string option"
  up_productCode :: "string option"
  up_category :: "string option"
  up_categoryName :: "string option"

record createCategoryInput =
  cc_name :: string
  cc_description :: "string option"

record updateCategoryInput =
  uc_name :: "string option"
  uc_description :: "string option"

definition productNameCheck :: "string \<Rightarrow> issue list" where
  "productNameCheck v =
     failing (length v < 1) [''body'', ''name''] (Wording ''Product name is required'') @
     failing (length v > 100) [''body'', ''name'']
       (Wording ''Product name must be less than 100 characters'')"

definition productDescriptionCheck :: "string \<Rightarrow> issue list" where
  "productDescriptionCheck v =
     failing (length v < 1) [''body'', ''description''] (Wording ''Description is required'') @
     failing (length v > 500) [''body'', ''description'']
       (Wording ''Description must be less than 500 characters'')"

definition priceCheck :: "rat \<Rightarrow> issue list" where
  "priceCheck v = failing (v < 0) [''body'', ''price''] (Wording ''Price must be a positive number'')"

definition discountCheck :: "rat \<Rightarrow> issue list" where
  "discountCheck v =
     failing (v < 0) [''body'', ''discount''] (Wording ''Discount must be at least 0'') @
     failing (v > 100) [''body'', ''discount''] (Wording ''Discount cannot exceed 100%'')"

text \<open>\<open>isUrl\<close> is the schema library's URL test, a parameter.\<close>

definition imageCheck :: "(string \<Rightarrow> bool) \<Rightarrow> string \<Rightarrow> issue list" where
  "imageCheck isUrl v = failing (\<not> isUrl v) [''body'', ''image''] (Wording ''Image must be a valid URL'')"

definition statusCheck :: "string \<Rightarrow> issue list" where
  "statusCheck v = failing (v \<notin> set [''In Stock'', ''Stock Out'']) [''body'', ''status''] LibraryWording"

definition createProductSchema :: "(string \<Rightarrow> bool) \<Rightarrow> createProductInput \<Rightarrow> issue list" where
  "createProductSchema isUrl b =
     productNameCheck (cp_name b) @
     productDescriptionCheck (cp_description b) @
     priceCheck (cp_price b) @
     optional discountCheck (cp_discount b) @
     imageCheck isUrl (cp_image b) @
     optional statusCheck (cp_status b) @
     objectIdSchema [''body'', ''categoryId''] (cp_categoryId b)"

definition updateProductSchema ::
  "(string \<Rightarrow> bool) \<Rightarrow> string \<Rightarrow> updateProductInput \<Rightarrow> issue list" where
  "updateProductSchema isUrl id' b =
     objectIdSchema [''params'', ''id''] id' @
     optional productNameCheck (up_name b) @
     optional productDescriptionCheck (up_description b) @
     optional priceCheck (up_price b) @
     optional discountCheck (up_discount b) @
     optional (imageCheck isUrl) (up_image b) @
     optional statusCheck (up_status b) @
     optional (objectIdSchema [''body'', ''categoryId'']) (up_categoryId b)"

definition getProductByIdSchema :: "string \<Rightarrow> issue list" where
  "getProductByIdSchema id' = objectIdSchema [''params'', ''id''] id'"

definition categoryNameCheck :: "string \<Rightarrow> issue list" where
  "categoryNameCheck v =
     failing (length v < 1) [''body'', ''name''] (Wording ''Category name is required'') @
     failing (length v > 50) [''body'', ''name'']
       (Wording ''Category name must be less than 50 characters'')"

definition categoryDescriptionCheck :: "string \<Rightarrow> issue list" where
  "categoryDescriptionCheck v =
     failing (length v > 200) [''body'', ''description'']
       (Wording ''Description must be less than 200 characters'')"

definition createCategorySchema :: "createCategoryInput \<Rightarrow> issue list" where
  "createCategorySchema b =
     categoryNameCheck (cc_name b) @ optional categoryDescriptionCheck (cc_description b)"

definition updateCategorySchema :: "string \<Rightarrow> updateCategoryInput \<Rightarrow> issue list" where
  "updateCategorySchema id' b =
     objectIdSchema [''params'', ''id''] id' @
     optional categoryNameCheck (uc_name b) @
     optional categoryDescriptionCheck (uc_description b)"

section \<open>The store\<close>

text \<open>
  The document store is outside the repository; what the handlers rely on is modelled
  here, from the schemas of \<open>models/\<close> and the calls the handlers make. A string is
  cast to an ObjectId when it is a valid identifier (the hexadecimal digits are then
  compared without regard to case), and a failed cast is a \<open>CastError\<close>. Validators of
  a schema run before the write and report each failing path once, in the store's own
  wording. A unique index refuses a second document with the same key with the
  duplicate-key error.
\<close>

definition toObjectId :: "string \<Rightarrow> string option" where
  "toObjectId v = (if isValidObjectId v then Some (asciiLower v) else None)"

datatype storeCall =
    CategoryFind int int
  | CategoryCountDocuments
  | ProductFind int int
  | ProductCountDocuments
  | CategoryFindById string
  | CategoryCreate
  | CategoryFindByIdAndUpdate string
  | CategoryFindByIdAndDelete string
  | ProductFindById string
  | ProductFindOne
  | ProductCreate
  | ProductFindByIdAndUpdate string
  | ProductFindByIdAndDelete string

text \<open>
  The listing query \<open>find(filter).sort(sort).limit(l).skip(s)\<close>, recorded in the calls as
  \<open>Find l s\<close>: of the documents that match the filter, in the order of the sort, the
  store skips \<open>s\<close> and returns at most \<open>l\<close> of the rest. For this store a limit of 0
  is no limit, a negative limit counts by its absolute value, and a negative skip is
  refused with an error of the server, \<open>refused\<close>.
\<close>

definition cursor :: "error \<Rightarrow> int \<Rightarrow> int \<Rightarrow> 'a list \<Rightarrow> error + 'a list" where
  "cursor refused l s matching =
     (if s < 0 then Inl refused
      else if l = 0 then Inr (drop (nat s) matching)
      else Inr (take (nat \<bar>l\<bar>) (drop (nat s) matching)))"

text \<open>What the environment supplies to one request.\<close>

record env =
  env_now :: nat
  env_newId :: string
  env_md5hex :: "string \<Rightarrow> string"
  env_toLowerCase :: "string \<Rightarrow> string"
  env_isUrl :: "string \<Rightarrow> bool"

subsection \<open>Category (unique index on name)\<close>

definition Category_findById :: "store \<Rightarrow> string \<Rightarrow> error + category option" where
  "Category_findById st id' =
     (case toObjectId id' of
        None \<Rightarrow> Inl (CastError ''_id'' ''ObjectId'' id')
      | Some oid \<Rightarrow> Inr (find (\<lambda>c. c_id c = oid) (categories st)))"

definition requiredString :: "string \<Rightarrow> string \<Rightarrow> (string \<times> wording) list" where
  "requiredString path v = (if v = [] then [(path, LibraryWording)] else [])"

definition Category_create ::
  "env \<Rightarrow> store \<Rightarrow> string \<Rightarrow> string option \<Rightarrow> error + (store \<times> category)" where
  "Category_create e st name description =
     (let errors = requiredString ''name'' name in
      if errors \<noteq> [] then Inl (ValidationError errors)
      else if \<exists>c \<in> set (categories st). c_id c = env_newId e
        then Inl (DuplicateKeyError ''_id'' (env_newId e))
      else if \<exists>c \<in> set (categories st). c_name c = name
        then Inl (DuplicateKeyError ''name'' name)
      else
        (let doc = \<lparr> c_id = env_newId e, c_name = name, c_description = description,
                      c_createdAt = env_now e, c_updatedAt = env_now e \<rparr>
         in Inr (st\<lparr> categories := categories st @ [doc] \<rparr>, doc)))"

definition applyCategoryUpdate :: "updateCategoryInput \<Rightarrow> nat \<Rightarrow> category \<Rightarrow> category" where
  "applyCategoryUpdate u now c =
     c\<lparr> c_name := (case uc_name u of None \<Rightarrow> c_name c | Some v \<Rightarrow> v),
        c_description := (case uc_description u of None \<Rightarrow> c_description c | Some v \<Rightarrow> Some v),
        c_updatedAt := now \<rparr>"

definition Category_findByIdAndUpdate ::
  "store \<Rightarrow> string \<Rightarrow> updateCategoryInput \<Rightarrow> nat \<Rightarrow> error + (store \<times> category option)" where
  "Category_findByIdAndUpdate st id' u now =
     (case toObjectId id' of
        None \<Rightarrow> Inl (CastError ''_id'' ''ObjectId'' id')
      | Some oid \<Rightarrow>
          (let errors = (case uc_name u of None \<Rightarrow> [] | Some v \<Rightarrow> requiredString ''name'' v) in
           if errors \<noteq> [] then Inl (ValidationError errors)
           else
             (case find (\<lambda>c. c_id c = oid) (categories st) of
                None \<Rightarrow> Inr (st, None)
              | Some c \<Rightarrow>
                  (let c' = applyCategoryUpdate u now c in
                   if \<exists>d \<in> set (categories st). c_id d \<noteq> oid \<and> c_name d = c_name c'
                   then Inl (DuplicateKeyError ''name'' (c_name c'))
                   else Inr (st\<lparr> categories :=
                                  map (\<lambda>d. if c_id d = oid then c' else d) (categories st) \<rparr>,
                             Some c')))))"

definition Category_findByIdAndDelete ::
  "store \<Rightarrow> string \<Rightarrow> error + (store \<times> category option)" where
  "Category_findByIdAndDelete st id' =
     (case toObjectId id' of
        None \<Rightarrow> Inl (CastError ''_id'' ''ObjectId'' id')
      | Some oid \<Rightarrow>
          (case find (\<lambda>c. c_id c = oid) (categories st) of
             None \<Rightarrow> Inr (st, None)
           | Some c \<Rightarrow>
               Inr (st\<lparr> categories := filter (\<lambda>d. c_id d \<noteq> oid) (categories st) \<rparr>, Some c)))"

subsection \<open>Product (unique index on productCode, validators of the schema)\<close>

text \<open>The pattern \<open>/^https?:\/\/.+$/\<close> of the \<open>image\<close> path.\<close>

definition noLineBreak :: "string \<Rightarrow> bool" where
  "noLineBreak s = (s \<noteq> [] \<and> CHR 0x0A \<notin> set s \<and> CHR 0x0D \<notin> set s)"

definition imageMatch :: "string \<Rightarrow> bool" where
  "imageMatch s =
     ((take 7 s = ''http://'' \<and> noLineBreak (drop 7 s)) \<or>
      (take 8 s = ''https://'' \<and> noLineBreak (drop 8 s)))"

definition failingPath :: "bool \<Rightarrow> string \<Rightarrow> (string \<times> wording) list" where
  "failingPath violated path = (if violated then [(path, LibraryWording)] else [])"

definition nameValidator :: "string \<Rightarrow> (string \<times> wording) list" where
  "nameValidator v = failingPath (v = []) ''name''"

definition descriptionValidator :: "string \<Rightarrow> (string \<times> wording) list" where
  "descriptionValidator v = failingPath (v = []) ''description''"

definition priceValidator :: "rat \<Rightarrow> (string \<times> wording) list" where
  "priceValidator v = failingPath (v < 0) ''price''"

definition discountValidator :: "rat \<Rightarrow> (string \<times> wording) list" where
  "discountValidator v = failingPath (v < 0 \<or> v > 100) ''discount''"

definition imageValidator :: "string \<Rightarrow> (string \<times> wording) list" where
  "imageValidator v = failingPath (v = [] \<or> \<not> imageMatch v) ''image''"

definition statusValidator :: "string \<Rightarrow> (string \<times> wording) list" where
  "statusValidator v = failingPath (v \<notin> set [''In Stock'', ''Stock Out'']) ''status''"

definition productCodeValidator :: "string \<Rightarrow> (string \<times> wording) list" where
  "productCodeValidator v = failingPath (v = []) ''productCode''"

definition Product_findById :: "store \<Rightarrow> string \<Rightarrow> error + product option" where
  "Product_findById st id' =
     (case toObjectId id' of
        None \<Rightarrow> Inl (CastError ''_id'' ''ObjectId'' id')
      | Some oid \<Rightarrow> Inr (find (\<lambda>p. p_id p = oid) (products st)))"

definition Product_findOne :: "store \<Rightarrow> string \<Rightarrow> string \<Rightarrow> error + product option" where
  "Product_findOne st name categoryId =
     (case toObjectId categoryId of
        None \<Rightarrow> Inl (CastError ''category'' ''ObjectId'' categoryId)
      | Some oid \<Rightarrow> Inr (find (\<lambda>p. p_name p = name \<and> p_category p = oid) (products st)))"

text \<open>
  \<open>Product.create\<close> with the fields the handler passes; \<open>discount\<close> and \<open>status\<close> take
  the defaults of the schema when the body leaves them out.
\<close>

definition Product_create ::
  "env \<Rightarrow> store \<Rightarrow> createProductInput \<Rightarrow> string \<Rightarrow> string \<Rightarrow> error + (store \<times> product)" where
  "Product_create e st b productCode categoryName =
     (case toObjectId (cp_categoryId b) of
        None \<Rightarrow> Inl (CastError ''category'' ''ObjectId'' (cp_categoryId b))
      | Some oid \<Rightarrow>
          (let doc = \<lparr> p_id = env_newId e, p_name = cp_name b,
                       p_description = cp_description b, p_price = cp_price b,
                       p_discount = (case cp_discount b of None \<Rightarrow> 0 | Some d \<Rightarrow> d),
                       p_image = cp_image b,
                       p_status = (case cp_status b of None \<Rightarrow> ''In Stock'' | Some s \<Rightarrow> s),
                       p_productCode = productCode, p_category = oid,
                       p_categoryName = Some categoryName,
                       p_createdAt = env_now e, p_updatedAt = env_now e \<rparr>;
               errors = nameValidator (p_name doc) @ descriptionValidator (p_description doc) @
                        priceValidator (p_price doc) @ discountValidator (p_discount doc) @
                        imageValidator (p_image doc) @ statusValidator (p_status doc) @
                        productCodeValidator (p_productCode doc)
           in if errors \<noteq> [] then Inl (ValidationError errors)
              else if \<exists>p \<in> set (products st). p_id p = env_newId e
                then Inl (DuplicateKeyError ''_id'' (env_newId e))
              else if \<exists>p \<in> set (products st). p_productCode p = productCode
                then Inl (DuplicateKeyError ''productCode'' productCode)
              else Inr (st\<lparr> products := products st @ [doc] \<rparr>, doc)))"

text \<open>
  \<open>Product.findByIdAndUpdate(id, updateData, {new: true, runValidators: true})\<close>:
  every key of \<open>updateData\<close> that is a path of the schema is set (\<open>categoryId\<close> is not
  one and is dropped), the validators of the paths that are set run first.
\<close>

definition applyProductUpdate :: "updateProductInput \<Rightarrow> string option \<Rightarrow> nat \<Rightarrow> product \<Rightarrow> product" where
  "applyProductUpdate u categoryOid now p =
     p\<lparr> p_name := (case up_name u of None \<Rightarrow> p_name p | Some v \<Rightarrow> v),
        p_description := (case up_description u of None \<Rightarrow> p_description p | Some v \<Rightarrow> v),
        p_price := (case up_price u of None \<Rightarrow> p_price p | Some v \<Rightarrow> v),
        p_discount := (case up_discount u of None \<Rightarrow> p_discount p | Some v \<Rightarrow> v),
        p_image := (case up_image u of None \<Rightarrow> p_image p | Some v \<Rightarrow> v),
        p_status := (case up_status u of None \<Rightarrow> p_status p | Some v \<Rightarrow> v),
        p_productCode := (case up_productCode u of None \<Rightarrow> p_productCode p | Some v \<Rightarrow> v),
        p_category := (case categoryOid of None \<Rightarrow> p_category p | Some v \<Rightarrow> v),
        p_categoryName := (case up_categoryName u of None \<Rightarrow> p_categoryName p | Some v \<Rightarrow> Some v),
        p_updatedAt := now \<rparr>"

definition updateValidators :: "updateProductInput \<Rightarrow> (string \<times> wording) list" where
  "updateValidators u =
     (case up_name u of None \<Rightarrow> [] | Some v \<Rightarrow> nameValidator v) @
     (case up_description u of None \<Rightarrow> [] | Some v \<Rightarrow> descriptionValidator v) @
     (case up_price u of None \<Rightarrow> [] | Some v \<Rightarrow> priceValidator v) @
     (case up_discount u of None \<Rightarrow> [] | Some v \<Rightarrow> discountValidator v) @
     (case up_image u of None \<Rightarrow> [] | Some v \<Rightarrow> imageValidator v) @
     (case up_status u of None \<Rightarrow> [] | Some v \<Rightarrow> statusValidator v) @
     (case up_productCode u of None \<Rightarrow> [] | Some v \<Rightarrow> productCodeValidator v)"

definition Product_findByIdAndUpdate ::
  "store \<Rightarrow> string \<Rightarrow> updateProductInput \<Rightarrow> nat \<Rightarrow> error + (store \<times> product option)" where
  "Product_findByIdAndUpdate st id' u now =
     (case toObjectId id' of
        None \<Rightarrow> Inl (CastError ''_id'' ''ObjectId'' id')
      | Some oid \<Rightarrow>
          (case (case up_category u of None \<Rightarrow> Inr None
                 | Some v \<Rightarrow> (case toObjectId v of
                                None \<Rightarrow> Inl (CastError ''category'' ''ObjectId'' v)
                              | Some c \<Rightarrow> Inr (Some c))) of
             Inl err \<Rightarrow> Inl err
           | Inr categoryOid \<Rightarrow>
               (let errors = updateValidators u in
                if errors \<noteq> [] then Inl (ValidationError errors)
                else
                  (case find (\<lambda>p. p_id p = oid) (products st) of
                     None \<Rightarrow> Inr (st, None)
                   | Some p \<Rightarrow>
                       (let p' = applyProductUpdate u categoryOid now p in
                        if \<exists>q \<in> set (products st).
                             p_id q \<noteq> oid \<and> p_productCode q = p_productCode p'
                        then Inl (DuplicateKeyError ''productCode'' (p_productCode p'))
                        else Inr (st\<lparr> products :=
                                       map (\<lambda>q. if p_id q = oid then p' else q) (products st) \<rparr>,
                                  Some p'))))))"

definition Product_findByIdAndDelete ::
  "store \<Rightarrow> string \<Rightarrow> error + (store \<times> product option)" where
  "Product_findByIdAndDelete st id' =
     (case toObjectId id' of
        None \<Rightarrow> Inl (CastError ''_id'' ''ObjectId'' id')
      | Some oid \<Rightarrow>
          (case find (\<lambda>p. p_id p = oid) (products st) of
             None \<Rightarrow> Inr (st, None)
           | Some p \<Rightarrow>
               Inr (st\<lparr> products := filter (\<lambda>q. p_id q \<noteq> oid) (products st) \<rparr>, Some p)))"

section \<open>The validation middleware and the handlers\<close>

text \<open>
  What one request does: its response, the store afterwards, and the calls it made to
  the store, in order.
\<close>

record outcome =
  reply :: response
  db :: store
  calls :: "storeCall list"

text \<open>
  \<open>validate(schema)\<close>: the issues are those of \<open>schema.parseAsync\<close> on
  \<open>{body, query, params}\<close>. With no issue the middleware calls \<open>next()\<close>; the parsed
  value is not kept, so the handler reads the request as it arrived. With issues it
  answers itself. (The schemas of this repository throw nothing but a \<open>ZodError\<close>, so
  the branch \<open>next(error)\<close> is not taken.)
\<close>

definition validate :: "issue list \<Rightarrow> store \<Rightarrow> outcome \<Rightarrow> outcome" where
  "validate issues st next =
     (if issues = [] then next
      else \<lparr> reply = ValidationFailed 400 ''Validation failed''
                 (map (\<lambda>err. \<lparr> field = joinDot (issuePath err),
                               detailMessage = issueMessage err \<rparr>) issues),
             db = st, calls = [] \<rparr>)"

text \<open>
  \<open>asyncHandler\<close>: what the handler throws goes to \<open>next\<close>, that is to
  \<open>errorHandler\<close>, the last middleware of the application.
\<close>

definition asyncHandler :: "reqInfo \<Rightarrow> storeCall list \<times> store \<times> (error + response) \<Rightarrow> outcome" where
  "asyncHandler req h =
     (case h of
        (cs, st, Inl err) \<Rightarrow> \<lparr> reply = errorHandler err req, db = st, calls = cs \<rparr>
      | (cs, st, Inr res) \<Rightarrow> \<lparr> reply = res, db = st, calls = cs \<rparr>)"

subsection \<open>controllers/category.ts\<close>

definition createCategory ::
  "env \<Rightarrow> store \<Rightarrow> createCategoryInput \<Rightarrow> storeCall list \<times> store \<times> (error + response)" where
  "createCategory e st b =
     (case Category_create e st (cc_name b) (cc_description b) of
        Inl err \<Rightarrow> ([CategoryCreate], st, Inl err)
      | Inr (st', newCategory) \<Rightarrow>
          ([CategoryCreate], st',
           Inr (Success 201 ''Category created successfully'' (OneCategory newCategory))))"

definition getCategoryById ::
  "store \<Rightarrow> string \<Rightarrow> storeCall list \<times> store \<times> (error + response)" where
  "getCategoryById st id' =
     (if id' = [] then ([], st, Inr (GuardFailed 400 ''Category ID is required''))
      else
        (case Category_findById st id' of
           Inl err \<Rightarrow> ([CategoryFindById id'], st, Inl err)
         | Inr None \<Rightarrow> ([CategoryFindById id'], st, Inl (createNotFoundError ''Category''))
         | Inr (Some c) \<Rightarrow>
             ([CategoryFindById id'], st,
              Inr (Success 200 ''Category retrieved successfully'' (OneCategory c)))))"

definition updateCategoryById ::
  "env \<Rightarrow> store \<Rightarrow> string \<Rightarrow> updateCategoryInput \<Rightarrow>
   storeCall list \<times> store \<times> (error + response)" where
  "updateCategoryById e st id' updateData =
     (if id' = [] then ([], st, Inr (GuardFailed 400 ''Category ID is required''))
      else
        (case Category_findByIdAndUpdate st id' updateData (env_now e) of
           Inl err \<Rightarrow> ([CategoryFindByIdAndUpdate id'], st, Inl err)
         | Inr (st', None) \<Rightarrow>
             ([CategoryFindByIdAndUpdate id'], st', Inl (createNotFoundError ''Category''))
         | Inr (st', Some updatedCategory) \<Rightarrow>
             ([CategoryFindByIdAndUpdate id'], st',
              Inr (Success 200 ''Category updated successfully'' (OneCategory updatedCategory)))))"

definition deleteCategoryById ::
  "store \<Rightarrow> string \<Rightarrow> storeCall list \<times> store \<times> (error + response)" where
  "deleteCategoryById st id' =
     (if id' = [] then ([], st, Inr (GuardFailed 400 ''Category ID is required''))
      else
        (case Category_findByIdAndDelete st id' of
           Inl err \<Rightarrow> ([CategoryFindByIdAndDelete id'], st, Inl err)
         | Inr (st', None) \<Rightarrow>
             ([CategoryFindByIdAndDelete id'], st', Inl (createNotFoundError ''Category''))
         | Inr (st', Some deletedCategory) \<Rightarrow>
             ([CategoryFindByIdAndDelete id'], st',
              Inr (Success 200 ''Category deleted successfully'' NoData))))"

subsection \<open>controllers/product.ts\<close>

definition createProduct ::
  "env \<Rightarrow> store \<Rightarrow> createProductInput \<Rightarrow> storeCall list \<times> store \<times> (error + response)" where
  "createProduct e st b =
     (case Category_findById st (cp_categoryId b) of
        Inl err \<Rightarrow> ([CategoryFindById (cp_categoryId b)], st, Inl err)
      | Inr None \<Rightarrow>
          ([CategoryFindById (cp_categoryId b)], st, Inl (createNotFoundError ''Category''))
      | Inr (Some categoryExists) \<Rightarrow>
          (case Product_findOne st (cp_name b) (cp_categoryId b) of
             Inl err \<Rightarrow> ([CategoryFindById (cp_categoryId b), ProductFindOne], st, Inl err)
           | Inr (Some existingProduct) \<Rightarrow>
               ([CategoryFindById (cp_categoryId b), ProductFindOne], st,
                Inl (createValidationError
                       ''Product with this name already exists in this category''))
           | Inr None \<Rightarrow>
               (let productCode =
                      generateProductCode (env_md5hex e) (env_now e) (env_toLowerCase e) (cp_name b)
                in case Product_create e st b productCode (c_name categoryExists) of
                     Inl err \<Rightarrow>
                       ([CategoryFindById (cp_categoryId b), ProductFindOne, ProductCreate], st,
                        Inl err)
                   | Inr (st', newProduct) \<Rightarrow>
                       ([CategoryFindById (cp_categoryId b), ProductFindOne, ProductCreate], st',
                        Inr (Success 201 ''Product created successfully''
                               (OneProduct newProduct))))))"

definition getProductById ::
  "store \<Rightarrow> string \<Rightarrow> storeCall list \<times> store \<times> (error + response)" where
  "getProductById st id' =
     (case Product_findById st id' of
        Inl err \<Rightarrow> ([ProductFindById id'], st, Inl err)
      | Inr None \<Rightarrow> ([ProductFindById id'], st, Inl (createNotFoundError ''Product''))
      | Inr (Some p) \<Rightarrow>
          ([ProductFindById id'], st,
           Inr (Success 200 ''Product retrieved successfully'' (OneProduct p))))"

text \<open>
  \<open>updateProduct\<close>. \<open>if (updateData.categoryId)\<close> holds for a string that is not
  empty; the spread \<open>{...updateData, categoryName, category}\<close> overwrites those two keys
  of the body. \<open>calculatePricing(null)\<close> would throw a \<open>TypeError\<close>.
\<close>

definition updateProduct ::
  "env \<Rightarrow> store \<Rightarrow> string \<Rightarrow> updateProductInput \<Rightarrow>
   storeCall list \<times> store \<times> (error + response)" where
  "updateProduct e st id' body =
     (case Product_findById st id' of
        Inl err \<Rightarrow> ([ProductFindById id'], st, Inl err)
      | Inr None \<Rightarrow> ([ProductFindById id'], st, Inl (createNotFoundError ''Product''))
      | Inr (Some existingProduct) \<Rightarrow>
          (case (case up_categoryId body of
                   None \<Rightarrow> ([], Inr body)
                 | Some categoryId \<Rightarrow>
                     if categoryId = [] then ([], Inr body)
                     else
                       (case Category_findById st categoryId of
                          Inl err \<Rightarrow> ([CategoryFindById categoryId], Inl err)
                        | Inr None \<Rightarrow>
                            ([CategoryFindById categoryId], Inl (createNotFoundError ''Category''))
                        | Inr (Some categoryExists) \<Rightarrow>
                            ([CategoryFindById categoryId],
                             Inr (body\<lparr> up_categoryName := Some (c_name categoryExists),
                                        up_category := Some categoryId \<rparr>)))) of
             (cs, Inl err) \<Rightarrow> (ProductFindById id' # cs, st, Inl err)
           | (cs, Inr updateData) \<Rightarrow>
               (case Product_findByIdAndUpdate st id' updateData (env_now e) of
                  Inl err \<Rightarrow>
                    (ProductFindById id' # cs @ [ProductFindByIdAndUpdate id'], st, Inl err)
                | Inr (st', None) \<Rightarrow>
                    (ProductFindById id' # cs @ [ProductFindByIdAndUpdate id'], st',
                     Inl (OtherError ''TypeError'' ''Cannot read properties of null'' None))
                | Inr (st', Some updatedProduct) \<Rightarrow>
                    (ProductFindById id' # cs @ [ProductFindByIdAndUpdate id'], st',
                     Inr (Success 200 ''Product updated successfully''
                            (OneProduct updatedProduct))))))"

definition deleteProduct ::
  "store \<Rightarrow> string \<Rightarrow> storeCall list \<times> store \<times> (error + response)" where
  "deleteProduct st id' =
     (case Product_findByIdAndDelete st id' of
        Inl err \<Rightarrow> ([ProductFindByIdAndDelete id'], st, Inl err)
      | Inr (st', None) \<Rightarrow>
          ([ProductFindByIdAndDelete id'], st', Inl (createNotFoundError ''Product''))
      | Inr (st', Some deletedProduct) \<Rightarrow>
          ([ProductFindByIdAndDelete id'], st',
           Inr (Success 200 ''Product deleted successfully'' NoData)))"

subsection \<open>The routes (routes/product.ts, routes/category.ts)\<close>

definition productRouter_post :: "env \<Rightarrow> reqInfo \<Rightarrow> store \<Rightarrow> createProductInput \<Rightarrow> outcome" where
  "productRouter_post e req st b =
     validate (createProductSchema (env_isUrl e) b) st (asyncHandler req (createProduct e st b))"

definition productRouter_getById :: "reqInfo \<Rightarrow> store \<Rightarrow> string \<Rightarrow> outcome" where
  "productRouter_getById req st id' =
     validate (getProductByIdSchema id') st (asyncHandler req (getProductById st id'))"

definition productRouter_put ::
  "env \<Rightarrow> reqInfo \<Rightarrow> store \<Rightarrow> string \<Rightarrow> updateProductInput \<Rightarrow> outcome" where
  "productRouter_put e req st id' b =
     validate (updateProductSchema (env_isUrl e) id' b) st
       (asyncHandler req (updateProduct e st id' b))"

definition productRouter_delete :: "reqInfo \<Rightarrow> store \<Rightarrow> string \<Rightarrow> outcome" where
  "productRouter_delete req st id' =
     validate (getProductByIdSchema id') st (asyncHandler req (deleteProduct st id'))"

definition categoryRouter_post :: "env \<Rightarrow> reqInfo \<Rightarrow> store \<Rightarrow> createCategoryInput \<Rightarrow> outcome" where
  "categoryRouter_post e req st b =
     validate (createCategorySchema b) st (asyncHandler req (createCategory e st b))"

definition categoryRouter_getById :: "reqInfo \<Rightarrow> store \<Rightarrow> string \<Rightarrow> outcome" where
  "categoryRouter_getById req st id' = asyncHandler req (getCategoryById st id')"

definition categoryRouter_put ::
  "env \<Rightarrow> reqInfo \<Rightarrow> store \<Rightarrow> string \<Rightarrow> updateCategoryInput \<Rightarrow> outcome" where
  "categoryRouter_put e req st id' b =
     validate (updateCategorySchema id' b) st (asyncHandler req (updateCategoryById e st id' b))"

definition categoryRouter_delete :: "reqInfo \<Rightarrow> store \<Rightarrow> string \<Rightarrow> outcome" where
  "categoryRouter_delete req st id' = asyncHandler req (deleteCategoryById st id')"

section \<open>Listings (getProducts, getCategory)\<close>

text \<open>
  The handlers read \<open>req.query\<close>, which holds the strings of the request. The
  destructuring default (\<open>page = 1\<close>) applies to an absent parameter; \<open>page || 1\<close>
  replaces a falsy value, and the only falsy string is the empty one.
\<close>

definition paramOrDefault :: "string option \<Rightarrow> int \<Rightarrow> jsval" where
  "paramOrDefault v d = (case v of None \<Rightarrow> JNumber d | Some s \<Rightarrow> JString s)"

definition truthy :: "jsval \<Rightarrow> bool" where
  "truthy v = (case v of JString s \<Rightarrow> s \<noteq> [] | JNumber n \<Rightarrow> n \<noteq> 0)"

definition orElse :: "jsval \<Rightarrow> int \<Rightarrow> jsval" where
  "orElse v d = (if truthy v then v else JNumber d)"

text \<open>
  The numeric reading of a value in \<open>-\<close>, \<open>*\<close>, \<open>/\<close>, \<open><\<close> and \<open>>\<close>. The strings that
  reach the handlers are strings of decimal digits (the listing routes run
  \<open>validatePagination\<close> first); the empty string reads as 0. A digit string is read as
  the integer it denotes. A JavaScript number is a double: it holds every integer up to
  \<open>2 ^ 53\<close> exactly, rounds larger ones and reads a long enough digit string as
  \<open>Infinity\<close>. The reading below is therefore that of the code for values up to
  \<open>2 ^ 53\<close>, and the statements on listings are about such values only.
\<close>

definition digitValue :: "char \<Rightarrow> int" where
  "digitValue c = int (of_char c) - int (of_char (CHR ''0''))"

definition digitsValue :: "string \<Rightarrow> int" where
  "digitsValue s = foldl (\<lambda>n c. 10 * n + digitValue c) 0 s"

definition toNumber :: "jsval \<Rightarrow> int" where
  "toNumber v = (case v of JString s \<Rightarrow> digitsValue s | JNumber n \<Rightarrow> n)"

text \<open>\<open>Math.ceil(totalProducts / limitNum)\<close>, for a count of documents and a limit.\<close>

definition ceilQuotient :: "nat \<Rightarrow> int \<Rightarrow> number" where
  "ceilQuotient totalCount limitNum =
     (if limitNum = 0 then (if totalCount = 0 then NaN else Infinity)
      else Finite \<lceil>(of_nat totalCount :: rat) / of_int limitNum\<rceil>)"

definition lessNumber :: "int \<Rightarrow> number \<Rightarrow> bool" where
  "lessNumber a b = (case b of Finite n \<Rightarrow> a < n | Infinity \<Rightarrow> True | NaN \<Rightarrow> False)"

text \<open>
  The lines that the two handlers share: \<open>pageNum\<close>, \<open>limitNum\<close>, \<open>skip\<close>, and the
  \<open>pagination\<close> object of the response.
\<close>

definition pageNumOf :: "paginationQuery \<Rightarrow> jsval" where
  "pageNumOf q = orElse (paramOrDefault (q_page q) 1) 1"

definition limitNumOf :: "paginationQuery \<Rightarrow> jsval" where
  "limitNumOf q = orElse (paramOrDefault (q_limit q) 10) 10"

definition skipOf :: "paginationQuery \<Rightarrow> int" where
  "skipOf q = (toNumber (pageNumOf q) - 1) * toNumber (limitNumOf q)"

definition paginationOf :: "paginationQuery \<Rightarrow> nat \<Rightarrow> pagination" where
  "paginationOf q totalCount =
     (let pageNum = pageNumOf q;
          limitNum = limitNumOf q;
          pages = ceilQuotient totalCount (toNumber limitNum)
      in \<lparr> currentPage = pageNum, totalPages = pages, totalItems = totalCount, limit = limitNum,
           hasNextPage = lessNumber (toNumber pageNum) pages,
           hasPrevPage = (toNumber pageNum > 1) \<rparr>)"

text \<open>
  \<open>matching\<close> are the documents of the store that match the filter of the request, in
  the order of its sort; \<open>countDocuments(filter)\<close> is their number. The \<open>filters\<close> and
  \<open>sort\<close> that the product listing echoes are left out.
\<close>

definition getProducts ::
  "error \<Rightarrow> store \<Rightarrow> paginationQuery \<Rightarrow> product list \<Rightarrow>
   storeCall list \<times> store \<times> (error + response)" where
  "getProducts refused st q matching =
     (let limitNum = toNumber (limitNumOf q); skip = skipOf q in
      case cursor refused limitNum skip matching of
        Inl err \<Rightarrow> ([ProductFind limitNum skip], st, Inl err)
      | Inr found \<Rightarrow>
          ([ProductFind limitNum skip, ProductCountDocuments], st,
           Inr (Success 200 ''Products retrieved successfully''
                  (ProductList found (paginationOf q (length matching))))))"

definition getCategory ::
  "error \<Rightarrow> store \<Rightarrow> paginationQuery \<Rightarrow> category list \<Rightarrow>
   storeCall list \<times> store \<times> (error + response)" where
  "getCategory refused st q matching =
     (let limitNum = toNumber (limitNumOf q); skip = skipOf q in
      case cursor refused limitNum skip matching of
        Inl err \<Rightarrow> ([CategoryFind limitNum skip], st, Inl err)
      | Inr found \<Rightarrow>
          ([CategoryFind limitNum skip, CategoryCountDocuments], st,
           Inr (Success 200 ''Categories retrieved successfully''
                  (CategoryList found (paginationOf q (length matching))))))"

definition productRouter_get ::
  "error \<Rightarrow> reqInfo \<Rightarrow> store \<Rightarrow> paginationQuery \<Rightarrow> product list \<Rightarrow> outcome" where
  "productRouter_get refused req st q matching =
     validate (paginationSchema q) st (asyncHandler req (getProducts refused st q matching))"

definition categoryRouter_get ::
  "error \<Rightarrow> reqInfo \<Rightarrow> store \<Rightarrow> paginationQuery \<Rightarrow> category list \<Rightarrow> outcome" where
  "categoryRouter_get refused req st q matching =
     validate (paginationSchema q) st (asyncHandler req (getCategory refused st q matching))"

section \<open>The router (routes/index.ts)\<close>

text \<open>
  A request to one of the ten endpoints of \<open>/product\<close> and \<open>/category\<close>, with what it
  carries; the listing requests also carry the documents that match their filter.
\<close>

datatype request =
    PostProduct createProductInput
  | GetProducts paginationQuery "product list"
  | GetProduct string
  | PutProduct string updateProductInput
  | DeleteProduct string
  | PostCategory createCategoryInput
  | GetCategories paginationQuery "category list"
  | GetCategory string
  | PutCategory string updateCategoryInput
  | DeleteCategory string

fun rootRouter :: "env \<Rightarrow> error \<Rightarrow> reqInfo \<Rightarrow> store \<Rightarrow> request \<Rightarrow> outcome" where
  "rootRouter e refused req st (PostProduct b) = productRouter_post e req st b"
| "rootRouter e refused req st (GetProducts q matching) = productRouter_get refused req st q matching"
| "rootRouter e refused req st (GetProduct i) = productRouter_getById req st i"
| "rootRouter e refused req st (PutProduct i b) = productRouter_put e req st i b"
| "rootRouter e refused req st (DeleteProduct i) = productRouter_delete req st i"
| "rootRouter e refused req st (PostCategory b) = categoryRouter_post e req st b"
| "rootRouter e refused req st (GetCategories q matching) = categoryRouter_get refused req st q matching"
| "rootRouter e refused req st (GetCategory i) = categoryRouter_getById req st i"
| "rootRouter e refused req st (PutCategory i b) = categoryRouter_put e req st i b"
| "rootRouter e refused req st (DeleteCategory i) = categoryRouter_delete req st i"

text \<open>The issues of the schema that the route of a request runs; none where it runs no schema.\<close>

fun schemaIssues :: "env \<Rightarrow> request \<Rightarrow> issue list" where
  "schemaIssues e (PostProduct b) = createProductSchema (env_isUrl e) b"
| "schemaIssues e (GetProducts q matching) = paginationSchema q"
| "schemaIssues e (GetProduct i) = getProductByIdSchema i"
| "schemaIssues e (PutProduct i b) = updateProductSchema (env_isUrl e) i b"
| "schemaIssues e (DeleteProduct i) = getProductByIdSchema i"
| "schemaIssues e (PostCategory b) = createCategorySchema b"
| "schemaIssues e (GetCategories q matching) = paginationSchema q"
| "schemaIssues e (GetCategory i) = []"
| "schemaIssues e (PutCategory i b) = updateCategorySchema i b"
| "schemaIssues e (DeleteCategory i) = []"

text \<open>The identifier that a request carries in its path.\<close>

fun pathId :: "request \<Rightarrow> string option" where
  "pathId (GetProduct i) = Some i"
| "pathId (PutProduct i b) = Some i"
| "pathId (DeleteProduct i) = Some i"
| "pathId (GetCategory i) = Some i"
| "pathId (PutCategory i b) = Some i"
| "pathId (DeleteCategory i) = Some i"
| "pathId r = None"

text \<open>Reading a response.\<close>

fun statusOf :: "response \<Rightarrow> nat" where
  "statusOf (Success s m d) = s"
| "statusOf (ErrorEnvelope s t m c ds p mt) = s"
| "statusOf (ValidationFailed s m es) = s"
| "statusOf (GuardFailed s m) = s"

fun errorTypeOf :: "response \<Rightarrow> ErrorTypes option" where
  "errorTypeOf (ErrorEnvelope s t m c ds p mt) = Some t"
| "errorTypeOf r = None"

fun succeeded :: "response \<Rightarrow> bool" where
  "succeeded (Success s m d) = True"
| "succeeded r = False"

section \<open>Example data\<close>

text \<open>A small shop, used where a statement is evaluated on concrete requests.\<close>

definition noQuery :: paginationQuery where
  "noQuery = \<lparr> q_page = None, q_limit = None, q_search = None, q_category = None,
               q_status = None, q_sortBy = None, q_sortOrder = None \<rparr>"

definition noUpdate :: updateProductInput where
  "noUpdate = \<lparr> up_name = None, up_description = None, up_price = None, up_discount = None,
                up_image = None, up_status = None, up_categoryId = None,
                up_productCode = None, up_category = None, up_categoryName = None \<rparr>"

definition toolsId :: string where
  "toolsId = ''64b000000000000000000001''"

definition toysId :: string where
  "toysId = ''64b000000000000000000002''"

definition hammerId :: string where
  "hammerId = ''64c000000000000000000001''"

definition tools :: category where
  "tools = \<lparr> c_id = toolsId, c_name = ''Tools'', c_description = None,
             c_createdAt = 1000, c_updatedAt = 1000 \<rparr>"

definition toys :: category where
  "toys = \<lparr> c_id = toysId, c_name = ''Toys'', c_description = None,
            c_createdAt = 2000, c_updatedAt = 2000 \<rparr>"

definition hammer :: product where
  "hammer = \<lparr> p_id = hammerId, p_name = ''Hammer'', p_description = ''A claw hammer'',
              p_price = 12, p_discount = 0, p_image = ''https://example.com/h.png'',
              p_status = ''In Stock'', p_productCode = ''01234564000-1amer5'',
              p_category = toolsId, p_categoryName = Some ''Tools'',
              p_createdAt = 4000, p_updatedAt = 4000 \<rparr>"

definition shop :: store where
  "shop = \<lparr> categories = [tools, toys], products = [hammer] \<rparr>"

definition someEnv :: env where
  "someEnv = \<lparr> env_now = 5000, env_newId = ''64d000000000000000000001'',
               env_md5hex = (\<lambda>s. ''0123456789abcdef0123456789abcdef''),
               env_toLowerCase = asciiLower, env_isUrl = imageMatch \<rparr>"

definition someReq :: reqInfo where
  "someReq = \<lparr> reqPath = ''/'', reqMethod = ''GET'' \<rparr>"

definition refusal :: error where
  "refusal = ServerError 2 ''negative skip''"

definition sawBody :: createProductInput where
  "sawBody = \<lparr> cp_name = ''Saw'', cp_description = ''d'', cp_price = 5, cp_discount = None,
               cp_image = ''http://x'', cp_status = None, cp_categoryId = toolsId \<rparr>"

definition gardenBody :: createCategoryInput where
  "gardenBody = \<lparr> cc_name = ''Garden'', cc_description = None \<rparr>"

definition moveToToys :: updateProductInput where
  "moveToToys = noUpdate\<lparr> up_categoryId := Some toysId \<rparr>"

definition badListing :: request where
  "badListing = GetProducts (noQuery\<lparr> q_page := Some ''abc'', q_limit := Some ''-2'',
                                      q_status := Some ''Sold'' \<rparr>) []"

section \<open>The code generator: proofs\<close>

subsection \<open>Properties of the run decomposition\<close>

lemma runs_Nil_iff [simp]: "runs xs = [] \<longleftrightarrow> xs = []"
  by (induction xs rule: runs.induct) (auto split: list.splits)

lemma concat_runs [simp]: "concat (runs xs) = xs"
  by (induction xs rule: runs.induct) (auto split: list.splits)

lemma runs_nonempty: "r \<in> set (runs xs) \<Longrightarrow> r \<noteq> []"
  by (induction xs arbitrary: r rule: runs.induct) (auto split: list.splits if_splits)

lemma runs_increasing: "r \<in> set (runs xs) \<Longrightarrow> sorted_wrt (<) r"
proof (induction xs arbitrary: r rule: runs.induct)
  case 1
  then show ?case by simp
next
  case (2 x)
  then show ?case by simp
next
  case (3 x y ys)
  show ?case
  proof (cases "x < y")
    case False
    with 3 show ?thesis by auto
  next
    case True
    obtain r0 rs where rr: "runs (y # ys) = r0 # rs"
      by (cases "runs (y # ys)") auto
    have hd0: "hd r0 = y \<and> r0 \<noteq> []"
      using rr by (cases ys) (auto split: if_splits list.splits)
    have s0: "sorted_wrt (<) r0" using "3.IH"(1) [OF True, of r0] rr by simp
    have "sorted_wrt (<) (x # r0)"
    proof -
      obtain z zs where r0: "r0 = z # zs" using hd0 by (cases r0) auto
      then have "z = y" using hd0 by simp
      then show ?thesis using s0 r0 True by auto
    qed
    moreover have "r \<in> set rs \<Longrightarrow> sorted_wrt (<) r"
      using "3.IH"(1) [OF True, of r] rr by simp
    ultimately show ?thesis using "3.prems" True rr by auto
  qed
qed

lemma hd_runs: "runs (y # ys) = r0 # rs \<Longrightarrow> hd r0 = y \<and> r0 \<noteq> []"
  by (cases ys) (auto split: if_splits list.splits)

lemma runs_maximal: "maximalRuns (runs xs)"
proof (induction xs rule: runs.induct)
  case 1
  then show ?case by simp
next
  case (2 x)
  then show ?case by simp
next
  case (3 x y ys)
  obtain r0 rs where rr: "runs (y # ys) = r0 # rs"
    by (cases "runs (y # ys)") auto
  note h = hd_runs [OF rr]
  show ?case
  proof (cases "x < y")
    case True
    have m: "maximalRuns (r0 # rs)" using "3.IH"(1) [OF True] rr by simp
    have "maximalRuns ((x # r0) # rs)"
      using m h by (cases rs) auto
    then show ?thesis using True rr by simp
  next
    case False
    have m: "maximalRuns (r0 # rs)" using "3.IH"(2) [OF False] rr by simp
    then show ?thesis using False rr h by simp
  qed
qed

text \<open>
  \<open>runs\<close> is the decomposition that the specification speaks of: the runs make up the
  string, each is strictly increasing and not empty, and none can be extended.
\<close>

lemma runs_decomposition:
  "concat (runs s) = s \<and> (\<forall>r \<in> set (runs s). r \<noteq> [] \<and> sorted_wrt (<) r) \<and>
   maximalRuns (runs s)"
  using runs_nonempty runs_increasing runs_maximal by auto

lemma runs_snoc:
  "xs \<noteq> [] \<Longrightarrow> runs (xs @ [x]) =
     (if last xs < x then butlast (runs xs) @ [last (runs xs) @ [x]] else runs xs @ [[x]])"
proof (induction xs rule: runs.induct)
  case 1
  then show ?case by simp
next
  case (2 y)
  then show ?case by simp
next
  case (3 a b ys)
  then show ?case
    by (cases "runs (b # ys)") (auto split: list.splits if_splits)
qed

lemma longest_append [simp]: "longest (xs @ ys) = max (longest xs) (longest ys)"
  by (induction xs) auto

lemma gtPrev_iff: "0 < k \<Longrightarrow> k < length s \<Longrightarrow> gtPrev s (int k) \<longleftrightarrow> s ! (k - 1) < s ! k"
  by (simp add: gtPrev_def nat_diff_distrib')

lemma gtPrev_0 [simp]: "\<not> gtPrev s 0"
  by (simp add: gtPrev_def)

lemma runs_take_Suc:
  assumes "0 < k" "k < length s" "runs (take k s) = cl @ [cur]"
  shows "runs (take (Suc k) s) =
           (if s ! (k - 1) < s ! k then cl @ [cur @ [s ! k]] else (cl @ [cur]) @ [[s ! k]])"
proof -
  have ne: "take k s \<noteq> []" using assms by auto
  have l: "last (take k s) = s ! (k - 1)"
    using assms ne by (simp add: last_conv_nth min_def)
  show ?thesis
    using assms runs_snoc [OF ne, of "s ! k"] l
    by (simp add: take_Suc_conv_app_nth)
qed

lemma lengthLoop_inv:
  "0 < k \<Longrightarrow> k \<le> length s \<Longrightarrow> runs (take k s) = cl @ [cur] \<Longrightarrow>
   int (length cur) = int k - l - 1 \<Longrightarrow> m = int (longest cl) \<Longrightarrow>
   lengthLoop s m l (int k) = int (longest (runs s))"
proof (induction "length s - k" arbitrary: k cl cur l m)
  case 0
  then have k: "k = length s" by simp
  have "lengthLoop s m l (int k) = max m (int k - l - 1)"
    using k by (subst lengthLoop.simps) simp
  also have "\<dots> = int (max (longest cl) (length cur))"
    using 0 by simp
  also have "\<dots> = int (longest (runs s))"
    using 0 k by simp
  finally show ?case .
next
  case (Suc d)
  then have lt: "k < length s" by simp
  note step = runs_take_Suc [OF Suc.prems(1) lt Suc.prems(3)]
  show ?case
  proof (cases "s ! (k - 1) < s ! k")
    case True
    have "lengthLoop s m l (int k) = lengthLoop s m l (int (Suc k))"
      using lt True Suc.prems(1) by (subst lengthLoop.simps) (simp add: gtPrev_iff add.commute)
    also have "\<dots> = int (longest (runs s))"
      using Suc.hyps(1) [of "Suc k" cl "cur @ [s ! k]" l m] Suc.hyps(2) Suc.prems lt step True
      by simp
    finally show ?thesis .
  next
    case False
    have "lengthLoop s m l (int k) =
            lengthLoop s (max m (int k - l - 1)) (int k - 1) (int (Suc k))"
      using lt False Suc.prems(1) by (subst lengthLoop.simps) (simp add: gtPrev_iff add.commute)
    also have "max m (int k - l - 1) = int (longest (cl @ [cur]))"
      using Suc.prems(4,5) by simp
    also have "lengthLoop s (int (longest (cl @ [cur]))) (int k - 1) (int (Suc k)) =
                 int (longest (runs s))"
    proof (rule Suc.hyps(1))
      show "d = length s - Suc k" using Suc.hyps(2) by simp
      show "0 < Suc k" by simp
      show "Suc k \<le> length s" using lt by simp
      show "runs (take (Suc k) s) = (cl @ [cur]) @ [[s ! k]]" using step False by simp
      show "int (length [s ! k]) = int (Suc k) - (int k - 1) - 1" by simp
      show "int (longest (cl @ [cur])) = int (longest (cl @ [cur]))" ..
    qed
    finally show ?thesis .
  qed
qed

lemma findLength_eq:
  "findLongestIncreasingSubstringsLength s = int (longest (runs s))"
proof (cases s)
  case Nil
  then show ?thesis
    by (simp add: findLongestIncreasingSubstringsLength_def lengthLoop.simps)
next
  case (Cons a as)
  have "lengthLoop s 0 (- 1) 0 = lengthLoop s 0 (- 1) (int 1)"
    using Cons by (subst lengthLoop.simps) simp
  also have "\<dots> = int (longest (runs s))"
    using Cons by (intro lengthLoop_inv [of 1 s "[]" "[a]"]) auto
  finally show ?thesis by (simp add: findLongestIncreasingSubstringsLength_def)
qed

subsection \<open>The scan computes the tying runs\<close>

lemma runsFrom_append:
  "runsFrom i (xs @ ys) = runsFrom i xs @ runsFrom (i + length (concat xs)) ys"
  by (induction xs arbitrary: i) (auto simp: add.assoc)

lemma map_snd_runsFrom [simp]: "map snd (runsFrom i rs) = rs"
  by (induction rs arbitrary: i) auto

lemma jsSubstring_in_range:
  assumes "a \<le> b" "b \<le> length s"
  shows "jsSubstring s (int a) (int b) = take (b - a) (drop a s)"
proof -
  have "min (max (int a) 0) (int (length s)) = int a"
       "min (max (int b) 0) (int (length s)) = int b"
    using assms by simp_all
  moreover have "min (int a) (int b) = int a" "max (int a) (int b) = int b"
    using assms by simp_all
  moreover have "nat (int b - int a) = b - a" by simp
  ultimately show ?thesis by (simp add: jsSubstring_def Let_def del: of_nat_diff)
qed

lemma jsSubstring_suffix:
  assumes "concat cl @ cur = take k s" "k \<le> length s" "int (length cur) = int k - l - 1"
  shows "jsSubstring s (l + 1) (int k) = cur" and "l + 1 = int (length (concat cl))"
proof -
  have len: "length (concat cl) + length cur = k"
    using assms(1,2) by (metis length_append length_take min.absorb2)
  then show l1: "l + 1 = int (length (concat cl))" using assms(3) by linarith
  have "drop (length (concat cl)) (take k s) = cur"
    using assms(1) by (metis append_eq_conv_conj)
  then have "take (length cur) (drop (length (concat cl)) (take k s)) = cur" by simp
  then have "take (length cur) (drop (length (concat cl)) s) = cur"
    using len by (simp add: drop_take)
  moreover have "k - length (concat cl) = length cur" using len by simp
  ultimately have "take (k - length (concat cl)) (drop (length (concat cl)) s) = cur"
    by simp
  then show "jsSubstring s (l + 1) (int k) = cur"
    using jsSubstring_in_range [of "length (concat cl)" k s] assms(2) len
    unfolding l1 by simp
qed

lemma recordRun_noteRun:
  assumes "runs (take k s) = cl @ [cur]" "k \<le> length s" "int (length cur) = int k - l - 1"
  shows "(if int k - l - 1 = int M then recordRun s l (int k) res else res) =
           noteRun M res (length (concat cl), cur)"
proof -
  have c: "concat cl @ cur = take k s"
    using assms(1) concat_runs [of "take k s"] by simp
  note js = jsSubstring_suffix [OF c assms(2,3)]
  have "int k - 1 = int (length (concat cl) + length cur) - 1"
    using js(2) assms(3) by linarith
  then show ?thesis
    using js assms(3) by (auto simp: recordRun_def noteRun_def)
qed

lemma substringsLoop_inv:
  "0 < k \<Longrightarrow> k \<le> length s \<Longrightarrow> runs (take k s) = cl @ [cur] \<Longrightarrow>
   int (length cur) = int k - l - 1 \<Longrightarrow>
   substringsLoop s (int M) (foldl (noteRun M) init (runsFrom 0 cl)) l (int k) =
     foldl (noteRun M) init (runsFrom 0 (runs s))"
proof (induction "length s - k" arbitrary: k cl cur l)
  case 0
  then have k: "k = length s" by simp
  have "substringsLoop s (int M) (foldl (noteRun M) init (runsFrom 0 cl)) l (int k) =
          (if int k - l - 1 = int M then recordRun s l (int k) (foldl (noteRun M) init (runsFrom 0 cl))
           else foldl (noteRun M) init (runsFrom 0 cl))"
    using k by (subst substringsLoop.simps) simp
  also have "\<dots> = noteRun M (foldl (noteRun M) init (runsFrom 0 cl)) (length (concat cl), cur)"
    by (rule recordRun_noteRun [OF "0.prems"(3,2,4)])
  also have "\<dots> = foldl (noteRun M) init (runsFrom 0 (cl @ [cur]))"
    by (simp add: runsFrom_append)
  also have "cl @ [cur] = runs s" using "0.prems"(3) k by simp
  finally show ?case .
next
  case (Suc d)
  then have lt: "k < length s" by simp
  note step = runs_take_Suc [OF Suc.prems(1) lt Suc.prems(3)]
  let ?res = "foldl (noteRun M) init (runsFrom 0 cl)"
  show ?case
  proof (cases "s ! (k - 1) < s ! k")
    case True
    have "substringsLoop s (int M) ?res l (int k) = substringsLoop s (int M) ?res l (int (Suc k))"
      using lt True Suc.prems(1) by (subst substringsLoop.simps) (simp add: gtPrev_iff add.commute)
    also have "\<dots> = foldl (noteRun M) init (runsFrom 0 (runs s))"
    proof (rule Suc.hyps(1))
      show "d = length s - Suc k" using Suc.hyps(2) by simp
      show "0 < Suc k" by simp
      show "Suc k \<le> length s" using lt by simp
      show "runs (take (Suc k) s) = cl @ [cur @ [s ! k]]" using step True by simp
      show "int (length (cur @ [s ! k])) = int (Suc k) - l - 1" using Suc.prems(4) by simp
    qed
    finally show ?thesis .
  next
    case False
    have "substringsLoop s (int M) ?res l (int k) =
            substringsLoop s (int M)
              (if int k - l - 1 = int M then recordRun s l (int k) ?res else ?res)
              (int k - 1) (int (Suc k))"
      using lt False Suc.prems(1) by (subst substringsLoop.simps) (simp add: gtPrev_iff add.commute)
    also have "(if int k - l - 1 = int M then recordRun s l (int k) ?res else ?res) =
                 noteRun M ?res (length (concat cl), cur)"
      using lt by (intro recordRun_noteRun [OF Suc.prems(3) _ Suc.prems(4)]) simp
    also have "\<dots> = foldl (noteRun M) init (runsFrom 0 (cl @ [cur]))"
      by (simp add: runsFrom_append)
    also have "substringsLoop s (int M) (foldl (noteRun M) init (runsFrom 0 (cl @ [cur])))
                 (int k - 1) (int (Suc k)) = foldl (noteRun M) init (runsFrom 0 (runs s))"
    proof (rule Suc.hyps(1))
      show "d = length s - Suc k" using Suc.hyps(2) by simp
      show "0 < Suc k" by simp
      show "Suc k \<le> length s" using lt by simp
      show "runs (take (Suc k) s) = (cl @ [cur]) @ [[s ! k]]" using step False by simp
      show "int (length [s ! k]) = int (Suc k) - (int k - 1) - 1" by simp
    qed
    finally show ?thesis .
  qed
qed

lemma longest_pos:
  assumes "rs \<noteq> []" "[] \<notin> set rs"
  shows "0 < longest rs"
proof -
  obtain a as where rs: "rs = a # as" using assms(1) by (cases rs) auto
  then have "0 < length a" using assms(2) by auto
  moreover have "length a \<le> longest rs" using rs by simp
  ultimately show ?thesis by linarith
qed

lemma longest_mem: "rs \<noteq> [] \<Longrightarrow> \<exists>r\<in>set rs. length r = longest rs"
proof (induction rs)
  case Nil
  then show ?case by simp
next
  case (Cons a rs)
  show ?case
  proof (cases "rs = []")
    case True
    then show ?thesis by simp
  next
    case False
    with Cons.IH obtain r where "r \<in> set rs" "length r = longest rs" by auto
    then show ?thesis by (cases "length a \<le> longest rs") (auto simp: max_def)
  qed
qed

lemma substringsLoop_fold:
  assumes "s \<noteq> []"
  shows "substringsLoop s (int (longest (runs s))) init (- 1) 0 =
           foldl (noteRun (longest (runs s))) init (runsFrom 0 (runs s))"
proof -
  let ?M = "longest (runs s)"
  obtain a as where s: "s = a # as" using assms by (cases s) auto
  have pos: "0 < ?M"
    using assms runs_nonempty [of "[]" s] by (intro longest_pos) auto
  have "substringsLoop s (int ?M) init (- 1) 0 = substringsLoop s (int ?M) init (- 1) (int 1)"
    using s pos by (subst substringsLoop.simps) simp
  also have "\<dots> = foldl (noteRun ?M) init (runsFrom 0 (runs s))"
    using s substringsLoop_inv [of 1 s "[]" "[a]" "- 1" ?M init] by simp
  finally show ?thesis .
qed

lemma foldl_noteRun:
  "foldl (noteRun M) res irs =
     (let ts = filter (\<lambda>(i, r). length r = M) irs in
      if ts = [] then res
      else \<lparr> substring = substring res @ concat (map snd ts),
             startIndex = (if startIndex res = - 1 then int (fst (hd ts)) else startIndex res),
             endIndex = int (fst (last ts) + length (snd (last ts))) - 1 \<rparr>)"
proof (induction irs arbitrary: res)
  case Nil
  then show ?case by simp
next
  case (Cons ir irs)
  obtain i r where ir: "ir = (i, r)" by (cases ir)
  show ?case
    unfolding foldl_Cons Cons.IH
    by (auto simp: ir noteRun_def Let_def)
qed

lemma tyingRuns_nonempty: "s \<noteq> [] \<Longrightarrow> tyingRuns s \<noteq> []"
proof -
  assume "s \<noteq> []"
  then obtain r where r: "r \<in> set (runs s)" "length r = longest (runs s)"
    using longest_mem [of "runs s"] by auto
  then have "r \<in> snd ` set (runsFrom 0 (runs s))"
    by (metis map_snd_runsFrom set_map)
  then obtain i where "(i, r) \<in> set (runsFrom 0 (runs s))" by auto
  with r(2) have "(i, r) \<in> set (tyingRuns s)" by (simp add: tyingRuns_def)
  then show ?thesis by auto
qed

lemma scan_refines_runs:
  assumes "toLowerCase name \<noteq> []"
  shows "findLongestIncreasingSubstrings toLowerCase name = longestRunsSpec (toLowerCase name)"
proof -
  let ?s = "toLowerCase name"
  have "findLongestIncreasingSubstrings toLowerCase name =
          foldl (noteRun (longest (runs ?s))) \<lparr>substring = [], startIndex = - 1, endIndex = 0\<rparr>
            (runsFrom 0 (runs ?s))"
    using substringsLoop_fold [OF assms]
    by (simp add: findLongestIncreasingSubstrings_def findLength_eq Let_def)
  also have "\<dots> = longestRunsSpec ?s"
    using tyingRuns_nonempty [OF assms]
    by (simp add: foldl_noteRun longestRunsSpec_def tyingRuns_def Let_def)
  finally show ?thesis .
qed

lemma asciiLower_Nil [simp]: "asciiLower [] = []"
  by (simp add: asciiLower_def)

lemma scan_empty:
  "findLongestIncreasingSubstrings asciiLower [] =
     \<lparr> substring = [], startIndex = 0, endIndex = - 1 \<rparr>"
  by (simp add: findLongestIncreasingSubstrings_def findLongestIncreasingSubstringsLength_def
      lengthLoop.simps substringsLoop.simps recordRun_def jsSubstring_def)

subsection \<open>Claims on the code generator\<close>

text \<open>
  C1. For every product name, the generator scans the lower-cased name for the longest
  contiguous run of strictly increasing characters, concatenating all tying longest runs
  in order of appearance and recording the start index of the first and the end index of
  the last; the generated code is the first seven characters of the hash of the name, the
  time stamp, a \<open>-\<close>, that start index, the concatenated runs and that end index. For the
  name \<open>aabcabcd\<close> the segment after the \<open>-\<close> of the generated code is \<open>4abcd7\<close>.
  Product names are not empty (the create schema asks for at least one character), and the
  lower-casing is any function.
\<close>

theorem generator_scans_longest_runs:
  "(toLowerCase name \<noteq> [] \<longrightarrow>
      findLongestIncreasingSubstrings toLowerCase name = longestRunsSpec (toLowerCase name)) \<and>
   (lower productName \<noteq> [] \<longrightarrow>
      generateProductCode md5hex now lower productName =
        generateHash md5hex productName @ showNat now @ ''-'' @
        showInt (startIndex (longestRunsSpec (lower productName))) @
        substring (longestRunsSpec (lower productName)) @
        showInt (endIndex (longestRunsSpec (lower productName)))) \<and>
   generateProductCode md5hex now asciiLower ''aabcabcd'' =
     generateHash md5hex ''aabcabcd'' @ showNat now @ ''-'' @ ''4abcd7''"
proof (intro conjI impI)
  assume "toLowerCase name \<noteq> []"
  then show "findLongestIncreasingSubstrings toLowerCase name = longestRunsSpec (toLowerCase name)"
    by (rule scan_refines_runs)
next
  assume "lower productName \<noteq> []"
  then have "findLongestIncreasingSubstrings lower productName =
               longestRunsSpec (lower productName)"
    by (rule scan_refines_runs)
  then show "generateProductCode md5hex now lower productName =
        generateHash md5hex productName @ showNat now @ ''-'' @
        showInt (startIndex (longestRunsSpec (lower productName))) @
        substring (longestRunsSpec (lower productName)) @
        showInt (endIndex (longestRunsSpec (lower productName)))"
    by (simp add: generateProductCode_def Let_def)
next
  have "findLongestIncreasingSubstrings asciiLower ''aabcabcd'' =
          \<lparr> substring = ''abcd'', startIndex = 4, endIndex = 7 \<rparr>"
    by code_simp
  moreover have "showInt 4 = ''4''" "showInt 7 = ''7''"
    by code_simp+
  ultimately show "generateProductCode md5hex now asciiLower ''aabcabcd'' =
     generateHash md5hex ''aabcabcd'' @ showNat now @ ''-'' @ ''4abcd7''"
    by (simp add: generateProductCode_def)
qed

theorem generator_scans_longest_runs_witness:
  "asciiLower ''abAB-ab'' \<noteq> [] \<and>
   findLongestIncreasingSubstrings asciiLower ''abAB-ab'' =
     longestRunsSpec (asciiLower ''abAB-ab'') \<and>
   longestRunsSpec (asciiLower ''abAB-ab'') =
     \<lparr> substring = ''-ab'', startIndex = 4, endIndex = 6 \<rparr> \<and>
   generateProductCode (\<lambda>s. ''0123456789abcdef'') 1700 asciiLower ''abAB-ab'' =
     ''01234561700-4-ab6''"
proof -
  have ne: "asciiLower ''abAB-ab'' \<noteq> []"
    by (simp add: asciiLower_def)
  have v: "longestRunsSpec (asciiLower ''abAB-ab'') =
     \<lparr> substring = ''-ab'', startIndex = 4, endIndex = 6 \<rparr>"
    by code_simp
  have s: "showInt 4 = ''4''" "showInt 6 = ''6''" "showNat 1700 = ''1700''"
    "generateHash (\<lambda>s. ''0123456789abcdef'') ''abAB-ab'' = ''0123456''"
    by code_simp+
  note t = generator_scans_longest_runs
    [where toLowerCase = asciiLower and name = "''abAB-ab''" and lower = asciiLower
       and productName = "''abAB-ab''" and md5hex = "\<lambda>s. ''0123456789abcdef''" and now = 1700]
  have scan: "findLongestIncreasingSubstrings asciiLower ''abAB-ab'' =
     longestRunsSpec (asciiLower ''abAB-ab'')"
    using t ne by blast
  have "generateProductCode (\<lambda>s. ''0123456789abcdef'') 1700 asciiLower ''abAB-ab'' =
        generateHash (\<lambda>s. ''0123456789abcdef'') ''abAB-ab'' @ showNat 1700 @ ''-'' @
        showInt (startIndex (longestRunsSpec (asciiLower ''abAB-ab''))) @
        substring (longestRunsSpec (asciiLower ''abAB-ab'')) @
        showInt (endIndex (longestRunsSpec (asciiLower ''abAB-ab'')))"
    using t ne by blast
  then have code: "generateProductCode (\<lambda>s. ''0123456789abcdef'') 1700 asciiLower ''abAB-ab'' =
     ''01234561700-4-ab6''"
    by (simp add: v s)
  show ?thesis using ne scan v code by blast
qed

text \<open>
  C7, as the specification states it: for the empty name the scan yields run length 0, an
  empty substring and both indices 0. The code sets the end index to \<open>right - 1\<close>, which
  is \<open>-1\<close> when the loop never ran.
\<close>

theorem empty_name_indices_counterexample:
  "\<not> (findLongestIncreasingSubstringsLength (asciiLower []) = 0 \<and>
      substring (findLongestIncreasingSubstrings asciiLower []) = [] \<and>
      startIndex (findLongestIncreasingSubstrings asciiLower []) = 0 \<and>
      endIndex (findLongestIncreasingSubstrings asciiLower []) = 0)"
  by (simp add: scan_empty)

text \<open>
  C7, amended: for the empty name the scan yields run length 0, an empty substring, start
  index 0 and end index \<open>-1\<close>, so the generated code ends with \<open>-0-1\<close>.
\<close>

theorem empty_name_indices:
  "findLongestIncreasingSubstringsLength (asciiLower []) = 0 \<and>
   findLongestIncreasingSubstrings asciiLower [] =
     \<lparr> substring = [], startIndex = 0, endIndex = - 1 \<rparr> \<and>
   generateProductCode md5hex now asciiLower [] =
     generateHash md5hex [] @ showNat now @ ''-0-1''"
proof -
  have "showInt 0 = ''0''" "showInt (- 1) = ''-1''"
    by code_simp+
  then show ?thesis
    by (simp add: scan_empty generateProductCode_def
        findLongestIncreasingSubstringsLength_def lengthLoop.simps)
qed

section \<open>The request pipeline: proofs\<close>

lemma validate_passes: "issues = [] \<Longrightarrow> validate issues st next = next"
  by (simp add: validate_def)

lemma validate_fails:
  "issues \<noteq> [] \<Longrightarrow> validate issues st next =
     \<lparr> reply = ValidationFailed 400 ''Validation failed''
                 (map (\<lambda>err. \<lparr> field = joinDot (issuePath err),
                               detailMessage = issueMessage err \<rparr>) issues),
       db = st, calls = [] \<rparr>"
  by (simp add: validate_def)

lemma succeeded_errorHandler [simp]: "\<not> succeeded (errorHandler err req)"
  by (cases err) (auto split: prod.splits)

lemma asyncHandler_simps [simp]:
  "asyncHandler req (cs, st, Inl err) = \<lparr> reply = errorHandler err req, db = st, calls = cs \<rparr>"
  "asyncHandler req (cs, st, Inr res) = \<lparr> reply = res, db = st, calls = cs \<rparr>"
  by (simp_all add: asyncHandler_def)

lemma validate_succeeded:
  "succeeded (reply (validate issues st next)) \<Longrightarrow> issues = [] \<and> validate issues st next = next"
  by (cases "issues = []") (simp_all add: validate_def)

subsection \<open>Category updates leave the products alone\<close>

lemma Category_findByIdAndUpdate_products:
  "Category_findByIdAndUpdate st i u now = Inr (st', r) \<Longrightarrow> products st' = products st"
  by (auto simp: Category_findByIdAndUpdate_def Let_def split: option.splits if_splits)

lemma updateCategoryById_products:
  "updateCategoryById e st i u = (cs, st', r) \<Longrightarrow> products st' = products st"
  by (auto simp: updateCategoryById_def split: if_splits sum.splits prod.splits option.splits
      dest: Category_findByIdAndUpdate_products)

lemma categoryRouter_put_products:
  "products (db (categoryRouter_put e req st i u)) = products st"
proof (cases "updateCategorySchema i u = []")
  case True
  obtain cs st' r where h: "updateCategoryById e st i u = (cs, st', r)"
    by (cases "updateCategoryById e st i u") auto
  then have "products st' = products st" by (rule updateCategoryById_products)
  then show ?thesis
    using True h by (cases r) (simp_all add: categoryRouter_put_def validate_passes)
next
  case False
  then show ?thesis by (simp add: categoryRouter_put_def validate_fails)
qed

subsection \<open>Product updates\<close>

lemma find_map_replace:
  "find (\<lambda>q. p_id q = oid) ps = Some p \<Longrightarrow> p_id p' = oid \<Longrightarrow>
   find (\<lambda>q. p_id q = oid) (map (\<lambda>q. if p_id q = oid then p' else q) ps) = Some p'"
  by (induction ps) (auto split: if_splits)

lemma find_p_id: "find (\<lambda>q. p_id q = oid) ps = Some p \<Longrightarrow> p_id p = oid"
  by (induction ps) (auto split: if_splits)

lemma p_id_applyProductUpdate [simp]: "p_id (applyProductUpdate u c now p) = p_id p"
  by (simp add: applyProductUpdate_def)

lemma Product_findByIdAndUpdate_Some:
  assumes "Product_findByIdAndUpdate st i u now = Inr (st', Some p')"
  shows "Product_findById st' i = Inr (Some p') \<and> categories st' = categories st \<and>
         (\<forall>v. up_categoryName u = Some v \<longrightarrow> p_categoryName p' = Some v) \<and>
         (\<forall>v. up_category u = Some v \<longrightarrow> toObjectId v = Some (p_category p')) \<and>
         (\<forall>v. up_productCode u = Some v \<longrightarrow> p_productCode p' = v)"
proof -
  obtain oid where oid: "toObjectId i = Some oid"
    using assms by (auto simp: Product_findByIdAndUpdate_def split: option.splits)
  obtain coid where coid:
    "(case up_category u of None \<Rightarrow> Inr None
      | Some v \<Rightarrow> (case toObjectId v of None \<Rightarrow> Inl (CastError ''category'' ''ObjectId'' v)
                   | Some c \<Rightarrow> Inr (Some c))) = Inr coid"
    using assms oid by (auto simp: Product_findByIdAndUpdate_def split: sum.splits)
  obtain p where p: "find (\<lambda>p. p_id p = oid) (products st) = Some p"
    using assms oid coid
    by (auto simp: Product_findByIdAndUpdate_def Let_def split: option.splits if_splits)
  have p': "p' = applyProductUpdate u coid now p"
    and st': "st' = st\<lparr> products := map (\<lambda>q. if p_id q = oid then p' else q) (products st) \<rparr>"
    using assms oid coid p
    by (auto simp: Product_findByIdAndUpdate_def Let_def split: option.splits if_splits)
  have "p_id p' = oid" using p' find_p_id [OF p] by simp
  then have "Product_findById st' i = Inr (Some p')"
    using oid st' find_map_replace [OF p] by (simp add: Product_findById_def)
  moreover have "categories st' = categories st" using st' by simp
  moreover have "\<forall>v. up_categoryName u = Some v \<longrightarrow> p_categoryName p' = Some v"
    using p' by (simp add: applyProductUpdate_def)
  moreover have "\<forall>v. up_category u = Some v \<longrightarrow> toObjectId v = Some (p_category p')"
    using p' coid by (auto simp: applyProductUpdate_def split: option.splits)
  moreover have "\<forall>v. up_productCode u = Some v \<longrightarrow> p_productCode p' = v"
    using p' by (simp add: applyProductUpdate_def)
  ultimately show ?thesis by blast
qed

lemma Category_findById_valid:
  "Category_findById st cid = Inr r \<Longrightarrow> isValidObjectId cid"
  by (auto simp: Category_findById_def toObjectId_def split: option.splits if_splits)

lemma isValidObjectId_nonempty: "isValidObjectId cid \<Longrightarrow> cid \<noteq> []"
  by (auto simp: isValidObjectId_def)

lemma updateProduct_category:
  assumes "updateProduct e st i b = (cs, st', Inr res)"
    and "up_categoryId b = Some cid"
    and "Category_findById st cid = Inr (Some c)"
  shows "\<exists>p. Product_findById st' i = Inr (Some p) \<and>
             p_categoryName p = Some (c_name c) \<and> toObjectId cid = Some (p_category p)"
proof -
  have ne: "cid \<noteq> []"
    using assms(3) Category_findById_valid isValidObjectId_nonempty by blast
  let ?u = "b\<lparr> up_categoryName := Some (c_name c), up_category := Some cid \<rparr>"
  obtain p' where "Product_findByIdAndUpdate st i ?u (env_now e) = Inr (st', Some p')"
    using assms ne
    by (auto simp: updateProduct_def split: sum.splits option.splits prod.splits)
  from Product_findByIdAndUpdate_Some [OF this] show ?thesis by auto
qed

lemma productRouter_put_category:
  assumes "succeeded (reply (productRouter_put e req st i b))"
    and "up_categoryId b = Some cid"
    and "Category_findById st cid = Inr (Some c)"
  shows "\<exists>p. Product_findById (db (productRouter_put e req st i b)) i = Inr (Some p) \<and>
             p_categoryName p = Some (c_name c) \<and> toObjectId cid = Some (p_category p)"
proof -
  have eq: "productRouter_put e req st i b = asyncHandler req (updateProduct e st i b)"
    using validate_succeeded [of "updateProductSchema (env_isUrl e) i b" st] assms(1)
    by (simp add: productRouter_put_def)
  obtain cs st' r where h: "updateProduct e st i b = (cs, st', r)"
    by (cases "updateProduct e st i b") auto
  show ?thesis
  proof (cases r)
    case (Inl err)
    then show ?thesis using assms(1) eq h by simp
  next
    case (Inr res)
    then show ?thesis
      using updateProduct_category [OF _ assms(2,3)] h eq by simp
  qed
qed

subsection \<open>Duplicates\<close>

lemma find_append_Some:
  "P x \<Longrightarrow> \<exists>y. find P (xs @ [x]) = Some y"
  by (induction xs) auto

lemma createProduct_success:
  assumes "createProduct e st b = (cs, st', Inr res)"
  shows "\<exists>c doc. Category_findById st (cp_categoryId b) = Inr (Some c) \<and>
           st' = st\<lparr> products := products st @ [doc] \<rparr> \<and> p_name doc = cp_name b \<and>
           toObjectId (cp_categoryId b) = Some (p_category doc)"
proof -
  obtain c where c: "Category_findById st (cp_categoryId b) = Inr (Some c)"
    using assms by (auto simp: createProduct_def split: sum.splits option.splits)
  have none: "Product_findOne st (cp_name b) (cp_categoryId b) = Inr None"
    using assms c by (auto simp: createProduct_def split: sum.splits option.splits)
  obtain doc where doc:
    "Product_create e st b
       (generateProductCode (env_md5hex e) (env_now e) (env_toLowerCase e) (cp_name b))
       (c_name c) = Inr (st', doc)"
    using assms c none
    by (auto simp: createProduct_def Let_def split: sum.splits option.splits prod.splits)
  then have "st' = st\<lparr> products := products st @ [doc] \<rparr> \<and> p_name doc = cp_name b \<and>
           toObjectId (cp_categoryId b) = Some (p_category doc)"
    by (auto simp: Product_create_def Let_def split: option.splits if_splits)
  with c show ?thesis by blast
qed

lemma createProduct_duplicate:
  assumes "Category_findById st cid = Inr (Some c)"
    and "toObjectId cid = Some (p_category doc)" and "p_name doc = name"
    and "cp_name b = name" and "toObjectId (cp_categoryId b) = toObjectId cid"
  shows "createProduct e (st\<lparr> products := products st @ [doc] \<rparr>) b =
           ([CategoryFindById (cp_categoryId b), ProductFindOne],
            st\<lparr> products := products st @ [doc] \<rparr>,
            Inl (createValidationError ''Product with this name already exists in this category''))"
proof -
  let ?st = "st\<lparr> products := products st @ [doc] \<rparr>"
  have c: "Category_findById ?st (cp_categoryId b) = Inr (Some c)"
    using assms(1,2,5) by (auto simp: Category_findById_def split: option.splits)
  obtain q where
    "find (\<lambda>p. p_name p = name \<and> p_category p = p_category doc) (products st @ [doc]) = Some q"
    using find_append_Some [of "\<lambda>p. p_name p = name \<and> p_category p = p_category doc" doc]
      assms(3) by auto
  then have "Product_findOne ?st (cp_name b) (cp_categoryId b) = Inr (Some q)"
    using assms(2,4,5) by (simp add: Product_findOne_def)
  with c show ?thesis by (simp add: createProduct_def)
qed

lemma statusOf_errorHandler_AppError [simp]:
  "errorHandler (createValidationError m) req =
     ErrorEnvelope 400 VALIDATION_ERROR m (Some (CodeString ''VALIDATION_ERROR'')) []
       (reqPath req) (reqMethod req)"
  by (simp add: createValidationError_def determineErrorType_def truthyCode_def)

lemma second_product_refused:
  assumes "succeeded (reply (productRouter_post e1 req1 st b1))"
    and "cp_name b2 = cp_name b1"
    and "toObjectId (cp_categoryId b2) = toObjectId (cp_categoryId b1)"
    and "createProductSchema (env_isUrl e2) b2 = []"
  shows "productRouter_post e2 req2 (db (productRouter_post e1 req1 st b1)) b2 =
           \<lparr> reply = ErrorEnvelope 400 VALIDATION_ERROR
                       ''Product with this name already exists in this category''
                       (Some (CodeString ''VALIDATION_ERROR'')) [] (reqPath req2) (reqMethod req2),
             db = db (productRouter_post e1 req1 st b1),
             calls = [CategoryFindById (cp_categoryId b2), ProductFindOne] \<rparr>"
proof -
  have eq: "productRouter_post e1 req1 st b1 = asyncHandler req1 (createProduct e1 st b1)"
    using validate_succeeded [of "createProductSchema (env_isUrl e1) b1" st] assms(1)
    by (simp add: productRouter_post_def)
  obtain cs st' r where h: "createProduct e1 st b1 = (cs, st', r)"
    by (cases "createProduct e1 st b1") auto
  obtain res where r: "r = Inr res"
    using assms(1) eq h by (cases r) auto
  from createProduct_success [OF h [unfolded r]] obtain c doc where
    c: "Category_findById st (cp_categoryId b1) = Inr (Some c)" and
    st': "st' = st\<lparr> products := products st @ [doc] \<rparr>" and
    doc: "p_name doc = cp_name b1" "toObjectId (cp_categoryId b1) = Some (p_category doc)"
    by blast
  have db: "db (productRouter_post e1 req1 st b1) = st'" using eq h r by simp
  show ?thesis
    unfolding db st'
    using createProduct_duplicate [OF c doc(2,1) assms(2,3), of e2] assms(4)
    by (simp add: productRouter_post_def validate_passes)
qed

lemma createCategory_success:
  assumes "createCategory e st b = (cs, st', Inr res)"
  shows "\<exists>doc. st' = st\<lparr> categories := categories st @ [doc] \<rparr> \<and> c_name doc = cc_name b \<and>
           cc_name b \<noteq> []"
  using assms
  by (auto simp: createCategory_def Category_create_def Let_def requiredString_def
      split: sum.splits if_splits)

lemma createCategory_duplicate:
  assumes "c_name doc = cc_name b" "cc_name b \<noteq> []"
  shows "\<exists>fld v. createCategory e (st\<lparr> categories := categories st @ [doc] \<rparr>) b =
           ([CategoryCreate], st\<lparr> categories := categories st @ [doc] \<rparr>,
            Inl (DuplicateKeyError fld v))"
  using assms
  by (auto simp: createCategory_def Category_create_def Let_def requiredString_def)

lemma second_category_refused:
  assumes "succeeded (reply (categoryRouter_post e1 req1 st c1))"
    and "cc_name c2 = cc_name c1"
    and "createCategorySchema c2 = []"
  shows "statusOf (reply (categoryRouter_post e2 req2 (db (categoryRouter_post e1 req1 st c1)) c2)) = 409 \<and>
         errorTypeOf (reply (categoryRouter_post e2 req2 (db (categoryRouter_post e1 req1 st c1)) c2)) =
           Some DUPLICATE_ERROR \<and>
         db (categoryRouter_post e2 req2 (db (categoryRouter_post e1 req1 st c1)) c2) =
           db (categoryRouter_post e1 req1 st c1)"
proof -
  have eq: "categoryRouter_post e1 req1 st c1 = asyncHandler req1 (createCategory e1 st c1)"
    using validate_succeeded [of "createCategorySchema c1" st] assms(1)
    by (simp add: categoryRouter_post_def)
  obtain cs st' r where h: "createCategory e1 st c1 = (cs, st', r)"
    by (cases "createCategory e1 st c1") auto
  obtain res where r: "r = Inr res"
    using assms(1) eq h by (cases r) auto
  from createCategory_success [OF h [unfolded r]] obtain doc where
    st': "st' = st\<lparr> categories := categories st @ [doc] \<rparr>" and
    doc: "c_name doc = cc_name c1" "cc_name c1 \<noteq> []"
    by blast
  have db: "db (categoryRouter_post e1 req1 st c1) = st'" using eq h r by simp
  obtain fld v where
    "createCategory e2 st' c2 = ([CategoryCreate], st', Inl (DuplicateKeyError fld v))"
    using createCategory_duplicate [of doc c2 e2 st] doc assms(2) st' by auto
  then show ?thesis
    unfolding db using assms(3)
    by (simp add: categoryRouter_post_def validate_passes formatDuplicateKeyError_def)
qed

subsection \<open>What leaves a route\<close>

lemma rootRouter_invalid:
  "schemaIssues e r \<noteq> [] \<Longrightarrow>
   rootRouter e refused req st r =
     \<lparr> reply = ValidationFailed 400 ''Validation failed''
                 (map (\<lambda>err. \<lparr> field = joinDot (issuePath err),
                               detailMessage = issueMessage err \<rparr>) (schemaIssues e r)),
       db = st, calls = [] \<rparr>"
  by (cases r)
    (simp_all add: validate_fails productRouter_post_def productRouter_get_def
      productRouter_getById_def productRouter_put_def productRouter_delete_def
      categoryRouter_post_def categoryRouter_get_def categoryRouter_put_def)

lemma subseq_failing: "subseq (map issuePath (failing c path msg)) [path]"
  by (simp add: failing_def)

lemma subseq_objectIdSchema: "subseq (map issuePath (objectIdSchema path v)) [path]"
  by (simp add: objectIdSchema_def)

lemma subseq_optional:
  "(\<And>x. subseq (map issuePath (chk x)) ps) \<Longrightarrow> subseq (map issuePath (optional chk v)) ps"
  by (cases v) (simp_all add: optional_def)

lemma subseq_either:
  "\<not> (c \<and> d) \<Longrightarrow> subseq (map issuePath (failing c path m1 @ failing d path m2)) [path]"
  by (auto simp: failing_def)

lemma subseq_productNameCheck: "subseq (map issuePath (productNameCheck v)) [[''body'', ''name'']]"
  unfolding productNameCheck_def by (rule subseq_either) simp

lemma subseq_productDescriptionCheck:
  "subseq (map issuePath (productDescriptionCheck v)) [[''body'', ''description'']]"
  unfolding productDescriptionCheck_def by (rule subseq_either) simp

lemma subseq_priceCheck: "subseq (map issuePath (priceCheck v)) [[''body'', ''price'']]"
  unfolding priceCheck_def by (rule subseq_failing)

lemma subseq_discountCheck: "subseq (map issuePath (discountCheck v)) [[''body'', ''discount'']]"
  unfolding discountCheck_def by (rule subseq_either) simp

lemma subseq_imageCheck: "subseq (map issuePath (imageCheck isUrl v)) [[''body'', ''image'']]"
  unfolding imageCheck_def by (rule subseq_failing)

lemma subseq_statusCheck: "subseq (map issuePath (statusCheck v)) [[''body'', ''status'']]"
  unfolding statusCheck_def by (rule subseq_failing)

lemma subseq_categoryNameCheck: "subseq (map issuePath (categoryNameCheck v)) [[''body'', ''name'']]"
  unfolding categoryNameCheck_def by (rule subseq_either) simp

lemma subseq_categoryDescriptionCheck:
  "subseq (map issuePath (categoryDescriptionCheck v)) [[''body'', ''description'']]"
  unfolding categoryDescriptionCheck_def by (rule subseq_failing)

lemmas subseq_checks =
  subseq_failing subseq_objectIdSchema subseq_productNameCheck subseq_productDescriptionCheck
  subseq_priceCheck subseq_discountCheck subseq_imageCheck subseq_statusCheck
  subseq_categoryNameCheck subseq_categoryDescriptionCheck

lemma distinct_subseq: "subseq xs ys \<Longrightarrow> distinct ys \<Longrightarrow> distinct xs"
  by (auto simp: subseq_conv_nths)

lemma distinct_paginationSchema: "distinct (map issuePath (paginationSchema q))"
proof -
  have "subseq (map issuePath (paginationSchema q))
          ([[''query'', ''page'']] @ [[''query'', ''limit'']] @ [[''query'', ''category'']] @
           [[''query'', ''status'']] @ [[''query'', ''sortBy'']] @ [[''query'', ''sortOrder'']])"
    unfolding paginationSchema_def map_append
    by (intro list_emb_append_mono subseq_optional subseq_checks)
  then show ?thesis by (rule distinct_subseq) simp
qed

lemma distinct_createProductSchema: "distinct (map issuePath (createProductSchema isUrl b))"
proof -
  have "subseq (map issuePath (createProductSchema isUrl b))
          ([[''body'', ''name'']] @ [[''body'', ''description'']] @ [[''body'', ''price'']] @
           [[''body'', ''discount'']] @ [[''body'', ''image'']] @ [[''body'', ''status'']] @
           [[''body'', ''categoryId'']])"
    unfolding createProductSchema_def map_append
    by (intro list_emb_append_mono subseq_optional subseq_checks)
  then show ?thesis by (rule distinct_subseq) simp
qed

lemma distinct_updateProductSchema: "distinct (map issuePath (updateProductSchema isUrl i b))"
proof -
  have "subseq (map issuePath (updateProductSchema isUrl i b))
          ([[''params'', ''id'']] @
           [[''body'', ''name'']] @ [[''body'', ''description'']] @ [[''body'', ''price'']] @
           [[''body'', ''discount'']] @ [[''body'', ''image'']] @ [[''body'', ''status'']] @
           [[''body'', ''categoryId'']])"
    unfolding updateProductSchema_def map_append
    by (intro list_emb_append_mono subseq_optional subseq_checks)
  then show ?thesis by (rule distinct_subseq) simp
qed

lemma distinct_createCategorySchema: "distinct (map issuePath (createCategorySchema b))"
proof -
  have "subseq (map issuePath (createCategorySchema b))
          ([[''body'', ''name'']] @ [[''body'', ''description'']])"
    unfolding createCategorySchema_def map_append
    by (intro list_emb_append_mono subseq_optional subseq_checks)
  then show ?thesis by (rule distinct_subseq) simp
qed

lemma distinct_updateCategorySchema: "distinct (map issuePath (updateCategorySchema i b))"
proof -
  have "subseq (map issuePath (updateCategorySchema i b))
          ([[''params'', ''id'']] @ [[''body'', ''name'']] @ [[''body'', ''description'']])"
    unfolding updateCategorySchema_def map_append
    by (intro list_emb_append_mono subseq_optional subseq_checks)
  then show ?thesis by (rule distinct_subseq) simp
qed

lemma distinct_getProductByIdSchema: "distinct (map issuePath (getProductByIdSchema i))"
  by (simp add: getProductByIdSchema_def objectIdSchema_def)

lemma distinct_schemaIssues: "distinct (map issuePath (schemaIssues e r))"
  by (cases r)
    (simp_all add: distinct_paginationSchema distinct_createProductSchema
      distinct_updateProductSchema distinct_createCategorySchema distinct_updateCategorySchema
      distinct_getProductByIdSchema)

lemma createProduct_responds:
  "createProduct e st b = (cs, st', Inr res) \<Longrightarrow> succeeded res"
  by (auto simp: createProduct_def Let_def split: sum.splits option.splits prod.splits)

lemma getProductById_responds:
  "getProductById st i = (cs, st', Inr res) \<Longrightarrow> succeeded res"
  by (auto simp: getProductById_def split: sum.splits option.splits)

lemma updateProduct_responds:
  "updateProduct e st i b = (cs, st', Inr res) \<Longrightarrow> succeeded res"
  by (auto simp: updateProduct_def split: sum.splits option.splits prod.splits if_splits)

lemma deleteProduct_responds:
  "deleteProduct st i = (cs, st', Inr res) \<Longrightarrow> succeeded res"
  by (auto simp: deleteProduct_def split: sum.splits option.splits prod.splits)

lemma getProducts_responds:
  "getProducts refused st q ms = (cs, st', Inr res) \<Longrightarrow> succeeded res"
  by (auto simp: getProducts_def Let_def split: sum.splits)

lemma getCategory_responds:
  "getCategory refused st q ms = (cs, st', Inr res) \<Longrightarrow> succeeded res"
  by (auto simp: getCategory_def Let_def split: sum.splits)

lemma createCategory_responds:
  "createCategory e st b = (cs, st', Inr res) \<Longrightarrow> succeeded res"
  by (auto simp: createCategory_def split: sum.splits prod.splits)

lemma getCategoryById_responds:
  "getCategoryById st i = (cs, st', Inr res) \<Longrightarrow>
     succeeded res \<or> (res = GuardFailed 400 ''Category ID is required'' \<and> i = [])"
  by (auto simp: getCategoryById_def split: sum.splits option.splits if_splits)

lemma updateCategoryById_responds:
  "updateCategoryById e st i b = (cs, st', Inr res) \<Longrightarrow>
     succeeded res \<or> (res = GuardFailed 400 ''Category ID is required'' \<and> i = [])"
  by (auto simp: updateCategoryById_def split: sum.splits option.splits if_splits prod.splits)

lemma deleteCategoryById_responds:
  "deleteCategoryById st i = (cs, st', Inr res) \<Longrightarrow>
     succeeded res \<or> (res = GuardFailed 400 ''Category ID is required'' \<and> i = [])"
  by (auto simp: deleteCategoryById_def split: sum.splits option.splits if_splits prod.splits)

lemma asyncHandler_shape:
  assumes "\<And>cs st' res. h = (cs, st', Inr res) \<Longrightarrow> succeeded res \<or> (res = g \<and> G)"
  shows "succeeded (reply (asyncHandler req h)) \<or> (reply (asyncHandler req h) = g \<and> G) \<or>
         (\<exists>err. reply (asyncHandler req h) = errorHandler err req)"
proof -
  obtain cs st' x where h: "h = (cs, st', x)" by (cases h) auto
  show ?thesis
  proof (cases x)
    case (Inl err)
    then show ?thesis using h by auto
  next
    case (Inr res)
    then show ?thesis using h assms [of cs st' res] by auto
  qed
qed

lemma updateCategorySchema_empty_id: "updateCategorySchema [] b \<noteq> []"
  by (simp add: updateCategorySchema_def objectIdSchema_def isValidObjectId_def)

lemma reply_shapes:
  "succeeded (reply (rootRouter e refused req st r)) \<or>
   (schemaIssues e r \<noteq> [] \<and>
    reply (rootRouter e refused req st r) =
      ValidationFailed 400 ''Validation failed''
        (map (\<lambda>err. \<lparr> field = joinDot (issuePath err), detailMessage = issueMessage err \<rparr>)
           (schemaIssues e r))) \<or>
   (reply (rootRouter e refused req st r) = GuardFailed 400 ''Category ID is required'' \<and>
    (r = GetCategory [] \<or> r = DeleteCategory [])) \<or>
   (\<exists>err. reply (rootRouter e refused req st r) = errorHandler err req)"
proof (cases "schemaIssues e r = []")
  case False
  then show ?thesis using rootRouter_invalid [OF False, of refused req st] by simp
next
  case True
  show ?thesis
  proof (cases r)
    case (PostProduct b)
    then show ?thesis
      using True asyncHandler_shape [of "createProduct e st b" undefined False req]
        createProduct_responds [of e st b]
      by (auto simp: productRouter_post_def validate_passes)
  next
    case (GetProducts q ms)
    then show ?thesis
      using True asyncHandler_shape [of "getProducts refused st q ms" undefined False req]
        getProducts_responds [of refused st q ms]
      by (auto simp: productRouter_get_def validate_passes)
  next
    case (GetProduct i)
    then show ?thesis
      using True asyncHandler_shape [of "getProductById st i" undefined False req]
        getProductById_responds [of st i]
      by (auto simp: productRouter_getById_def validate_passes)
  next
    case (PutProduct i b)
    then show ?thesis
      using True asyncHandler_shape [of "updateProduct e st i b" undefined False req]
        updateProduct_responds [of e st i b]
      by (auto simp: productRouter_put_def validate_passes)
  next
    case (DeleteProduct i)
    then show ?thesis
      using True asyncHandler_shape [of "deleteProduct st i" undefined False req]
        deleteProduct_responds [of st i]
      by (auto simp: productRouter_delete_def validate_passes)
  next
    case (PostCategory b)
    then show ?thesis
      using True asyncHandler_shape [of "createCategory e st b" undefined False req]
        createCategory_responds [of e st b]
      by (auto simp: categoryRouter_post_def validate_passes)
  next
    case (GetCategories q ms)
    then show ?thesis
      using True asyncHandler_shape [of "getCategory refused st q ms" undefined False req]
        getCategory_responds [of refused st q ms]
      by (auto simp: categoryRouter_get_def validate_passes)
  next
    case (GetCategory i)
    then show ?thesis
      using asyncHandler_shape [of "getCategoryById st i"
          "GuardFailed 400 ''Category ID is required''" "i = []" req]
        getCategoryById_responds [of st i]
      by (auto simp: categoryRouter_getById_def)
  next
    case (PutCategory i b)
    have "i \<noteq> []" using True PutCategory updateCategorySchema_empty_id by auto
    then show ?thesis
      using True PutCategory
        asyncHandler_shape [of "updateCategoryById e st i b" undefined False req]
        updateCategoryById_responds [of e st i b]
      by (auto simp: categoryRouter_put_def validate_passes)
  next
    case (DeleteCategory i)
    then show ?thesis
      using asyncHandler_shape [of "deleteCategoryById st i"
          "GuardFailed 400 ''Category ID is required''" "i = []" req]
        deleteCategoryById_responds [of st i]
      by (auto simp: categoryRouter_delete_def)
  qed
qed

subsection \<open>Identifiers\<close>

lemma validated_id_routes:
  assumes "pathId r = Some i" "\<not> isValidObjectId i"
    and "r \<noteq> GetCategory i" "r \<noteq> DeleteCategory i"
  shows "calls (rootRouter e refused req st r) = [] \<and>
         (\<exists>es. reply (rootRouter e refused req st r) = ValidationFailed 400 ''Validation failed'' es)"
proof -
  have "schemaIssues e r \<noteq> []"
    using assms
    by (cases r) (auto simp: getProductByIdSchema_def objectIdSchema_def
        updateProductSchema_def updateCategorySchema_def)
  from rootRouter_invalid [OF this, of refused req st] show ?thesis by simp
qed

subsection \<open>Listings on concrete queries\<close>

lemma digits_0: "digitsOnly ''0''" "digitsOnly ''1''" "digitsOnly ''10''" "\<not> digitsOnly ''abc''"
  by (simp_all add: digitsOnly_def isDigit_def)

lemma digitsValue_simps:
  "digitsValue ''0'' = 0" "digitsValue ''1'' = 1" "digitsValue ''10'' = 10"
  by (simp_all add: digitsValue_def digitValue_def)

lemma paginationSchema_page:
  "paginationSchema (noQuery\<lparr> q_page := Some v \<rparr>) =
     failing (\<not> digitsOnly v) [''query'', ''page''] (Wording ''Page must be a positive number'')"
  by (simp add: paginationSchema_def noQuery_def optional_def)

lemma paginationSchema_limit:
  "paginationSchema (noQuery\<lparr> q_limit := Some v \<rparr>) =
     failing (\<not> digitsOnly v) [''query'', ''limit''] (Wording ''Limit must be a positive number'')"
  by (simp add: paginationSchema_def noQuery_def optional_def)

lemma limit_zero:
  "limitNumOf (noQuery\<lparr> q_limit := Some ''0'' \<rparr>) = JString ''0''"
  "pageNumOf (noQuery\<lparr> q_limit := Some ''0'' \<rparr>) = JNumber 1"
  "skipOf (noQuery\<lparr> q_limit := Some ''0'' \<rparr>) = 0"
  by (simp_all add: limitNumOf_def pageNumOf_def skipOf_def orElse_def paramOrDefault_def
      truthy_def noQuery_def toNumber_def digitsValue_simps)

lemma paginationOf_limit_zero:
  "paginationOf (noQuery\<lparr> q_limit := Some ''0'' \<rparr>) n =
     \<lparr> currentPage = JNumber 1, totalPages = (if n = 0 then NaN else Infinity), totalItems = n,
       limit = JString ''0'', hasNextPage = (n \<noteq> 0), hasPrevPage = False \<rparr>"
  by (simp add: paginationOf_def limit_zero Let_def toNumber_def digitsValue_simps
      ceilQuotient_def lessNumber_def)

lemma page_zero:
  "pageNumOf (noQuery\<lparr> q_page := Some ''0'' \<rparr>) = JString ''0''"
  "limitNumOf (noQuery\<lparr> q_page := Some ''0'' \<rparr>) = JNumber 10"
  "skipOf (noQuery\<lparr> q_page := Some ''0'' \<rparr>) = - 10"
  by (simp_all add: limitNumOf_def pageNumOf_def skipOf_def orElse_def paramOrDefault_def
      truthy_def noQuery_def toNumber_def digitsValue_simps)

lemma page_one:
  "pageNumOf (noQuery\<lparr> q_page := Some ''1'' \<rparr>) = JString ''1''"
  "limitNumOf (noQuery\<lparr> q_page := Some ''1'' \<rparr>) = JNumber 10"
  "skipOf (noQuery\<lparr> q_page := Some ''1'' \<rparr>) = 0"
  by (simp_all add: limitNumOf_def pageNumOf_def skipOf_def orElse_def paramOrDefault_def
      truthy_def noQuery_def toNumber_def digitsValue_simps)

lemma limit_ten:
  "pageNumOf (noQuery\<lparr> q_limit := Some ''10'' \<rparr>) = JNumber 1"
  "limitNumOf (noQuery\<lparr> q_limit := Some ''10'' \<rparr>) = JString ''10''"
  "skipOf (noQuery\<lparr> q_limit := Some ''10'' \<rparr>) = 0"
  by (simp_all add: limitNumOf_def pageNumOf_def skipOf_def orElse_def paramOrDefault_def
      truthy_def noQuery_def toNumber_def digitsValue_simps)

lemma invalid_xyz: "\<not> isValidObjectId ''xyz''"
  by (simp add: isValidObjectId_def)

lemma cursor_positive:
  "0 \<le> s \<Longrightarrow> 0 < l \<Longrightarrow> cursor refused l s matching = Inr (take (nat l) (drop (nat s) matching))"
  by (simp add: cursor_def)

section \<open>Claims on the request pipeline\<close>

text \<open>
  C3, at the request \<open>GET /category?limit=0\<close> (and \<open>GET /product?limit=0\<close>). The
  claim: for every listing request the envelope has \<open>totalPages = ceil(totalItems/limit)\<close>
  and at most \<open>limit\<close> items are returned. The query passes \<open>validatePagination\<close>, the
  handler keeps the string \<open>0\<close> as its limit (a string that is not empty is truthy, so
  \<open>limit || 10\<close> does not replace it), the store is asked for limit 0 and returns every
  matching document, and the page count is \<open>Infinity\<close> (\<open>NaN\<close> when nothing matches).
\<close>

theorem listing_limit_zero:
  "rootRouter e refused req st (GetCategories (noQuery\<lparr> q_limit := Some ''0'' \<rparr>) matching) =
     \<lparr> reply = Success 200 ''Categories retrieved successfully''
         (CategoryList matching
            \<lparr> currentPage = JNumber 1,
              totalPages = (if length matching = 0 then NaN else Infinity),
              totalItems = length matching, limit = JString ''0'',
              hasNextPage = (length matching \<noteq> 0), hasPrevPage = False \<rparr>),
       db = st, calls = [CategoryFind 0 0, CategoryCountDocuments] \<rparr> \<and>
   rootRouter e refused req st (GetProducts (noQuery\<lparr> q_limit := Some ''0'' \<rparr>) found) =
     \<lparr> reply = Success 200 ''Products retrieved successfully''
         (ProductList found
            \<lparr> currentPage = JNumber 1,
              totalPages = (if length found = 0 then NaN else Infinity),
              totalItems = length found, limit = JString ''0'',
              hasNextPage = (length found \<noteq> 0), hasPrevPage = False \<rparr>),
       db = st, calls = [ProductFind 0 0, ProductCountDocuments] \<rparr>"
  by (simp add: categoryRouter_get_def productRouter_get_def paginationSchema_limit digits_0
      failing_def validate_def getCategory_def getProducts_def limit_zero toNumber_def
      digitsValue_simps cursor_def paginationOf_limit_zero del: length_0_conv)

text \<open>
  For listing requests whose page and limit read as positive numbers, with their product
  and the number of matching documents within the integers that a double holds exactly, the
  envelope is the one the specification describes: \<open>skip = (page - 1) * limit\<close>, the store returns at
  most \<open>limit\<close> documents, \<open>totalPages\<close> is the ceiling of \<open>totalItems / limit\<close>,
  \<open>hasNextPage\<close> is \<open>currentPage < totalPages\<close>, \<open>hasPrevPage\<close> is \<open>currentPage > 1\<close>;
  an absent page is 1 and an absent limit is 10.
\<close>

theorem listing_envelope_for_positive_page_and_limit:
  "(0 < toNumber (pageNumOf q) \<and> 0 < toNumber (limitNumOf q) \<and>
    toNumber (pageNumOf q) * toNumber (limitNumOf q) \<le> 2 ^ 53 \<and>
    int (length matching) < 2 ^ 53 \<longrightarrow>
      getProducts refused st q matching =
        ([ProductFind (toNumber (limitNumOf q)) ((toNumber (pageNumOf q) - 1) * toNumber (limitNumOf q)),
          ProductCountDocuments], st,
         Inr (Success 200 ''Products retrieved successfully''
           (ProductList
              (take (nat (toNumber (limitNumOf q)))
                 (drop (nat ((toNumber (pageNumOf q) - 1) * toNumber (limitNumOf q))) matching))
              \<lparr> currentPage = pageNumOf q,
                totalPages =
                  Finite \<lceil>(of_nat (length matching) :: rat) / of_int (toNumber (limitNumOf q))\<rceil>,
                totalItems = length matching,
                limit = limitNumOf q,
                hasNextPage = (toNumber (pageNumOf q) <
                  \<lceil>(of_nat (length matching) :: rat) / of_int (toNumber (limitNumOf q))\<rceil>),
                hasPrevPage = (1 < toNumber (pageNumOf q)) \<rparr>))) \<and>
      int (length (take (nat (toNumber (limitNumOf q)))
                 (drop (nat ((toNumber (pageNumOf q) - 1) * toNumber (limitNumOf q))) matching)))
        \<le> toNumber (limitNumOf q)) \<and>
   (q_page q = None \<longrightarrow> pageNumOf q = JNumber 1) \<and>
   (q_limit q = None \<longrightarrow> limitNumOf q = JNumber 10)"
proof (intro conjI impI)
  assume "0 < toNumber (pageNumOf q) \<and> 0 < toNumber (limitNumOf q) \<and>
    toNumber (pageNumOf q) * toNumber (limitNumOf q) \<le> 2 ^ 53 \<and>
    int (length matching) < 2 ^ 53"
  then have pos: "0 < toNumber (pageNumOf q) \<and> 0 < toNumber (limitNumOf q)"
    by blast
  then have s: "0 \<le> (toNumber (pageNumOf q) - 1) * toNumber (limitNumOf q)" by simp
  show "getProducts refused st q matching =
        ([ProductFind (toNumber (limitNumOf q)) ((toNumber (pageNumOf q) - 1) * toNumber (limitNumOf q)),
          ProductCountDocuments], st,
         Inr (Success 200 ''Products retrieved successfully''
           (ProductList
              (take (nat (toNumber (limitNumOf q)))
                 (drop (nat ((toNumber (pageNumOf q) - 1) * toNumber (limitNumOf q))) matching))
              \<lparr> currentPage = pageNumOf q,
                totalPages =
                  Finite \<lceil>(of_nat (length matching) :: rat) / of_int (toNumber (limitNumOf q))\<rceil>,
                totalItems = length matching,
                limit = limitNumOf q,
                hasNextPage = (toNumber (pageNumOf q) <
                  \<lceil>(of_nat (length matching) :: rat) / of_int (toNumber (limitNumOf q))\<rceil>),
                hasPrevPage = (1 < toNumber (pageNumOf q)) \<rparr>)))"
    using pos cursor_positive [OF s, of "toNumber (limitNumOf q)" refused matching]
    by (simp add: getProducts_def skipOf_def Let_def paginationOf_def ceilQuotient_def
        lessNumber_def)
  show "int (length (take (nat (toNumber (limitNumOf q)))
                 (drop (nat ((toNumber (pageNumOf q) - 1) * toNumber (limitNumOf q))) matching)))
        \<le> toNumber (limitNumOf q)"
  proof -
    have "length (take (nat (toNumber (limitNumOf q)))
                 (drop (nat ((toNumber (pageNumOf q) - 1) * toNumber (limitNumOf q))) matching))
            \<le> nat (toNumber (limitNumOf q))"
      by simp
    then show ?thesis using pos by linarith
  qed
next
  assume "q_page q = None"
  then show "pageNumOf q = JNumber 1"
    by (simp add: pageNumOf_def paramOrDefault_def orElse_def truthy_def)
next
  assume "q_limit q = None"
  then show "limitNumOf q = JNumber 10"
    by (simp add: limitNumOf_def paramOrDefault_def orElse_def truthy_def)
qed

theorem listing_envelope_for_positive_page_and_limit_witness:
  "0 < toNumber (pageNumOf (noQuery\<lparr> q_page := Some ''2'', q_limit := Some ''2'' \<rparr>)) \<and>
   0 < toNumber (limitNumOf (noQuery\<lparr> q_page := Some ''2'', q_limit := Some ''2'' \<rparr>)) \<and>
   toNumber (pageNumOf (noQuery\<lparr> q_page := Some ''2'', q_limit := Some ''2'' \<rparr>)) *
     toNumber (limitNumOf (noQuery\<lparr> q_page := Some ''2'', q_limit := Some ''2'' \<rparr>)) \<le> 2 ^ 53 \<and>
   int (length [hammer, hammer, hammer]) < 2 ^ 53 \<and>
   getProducts refusal shop (noQuery\<lparr> q_page := Some ''2'', q_limit := Some ''2'' \<rparr>)
       [hammer, hammer, hammer] =
     ([ProductFind 2 2, ProductCountDocuments], shop,
      Inr (Success 200 ''Products retrieved successfully''
        (ProductList [hammer]
           \<lparr> currentPage = JString ''2'', totalPages = Finite 2, totalItems = 3,
             limit = JString ''2'', hasNextPage = False, hasPrevPage = True \<rparr>)))"
proof -
  let ?q = "noQuery\<lparr> q_page := Some ''2'', q_limit := Some ''2'' \<rparr>"
  have v: "pageNumOf ?q = JString ''2''" "limitNumOf ?q = JString ''2''"
    "toNumber (JString ''2'') = 2"
    by (simp_all add: pageNumOf_def limitNumOf_def paramOrDefault_def orElse_def truthy_def
        noQuery_def toNumber_def digitsValue_def digitValue_def)
  have c: "\<lceil>(3::rat) / 2\<rceil> = 2" by (simp add: ceiling_eq_iff)
  show ?thesis
    using listing_envelope_for_positive_page_and_limit
      [where q = ?q and refused = refusal and st = shop and matching = "[hammer, hammer, hammer]"]
    by (simp add: v c)
qed

text \<open>
  C4. Creating a second Product with the same name and category as one just created
  yields the 400 \<open>VALIDATION_ERROR\<close> of the handler's own check, and nothing is stored;
  creating a second Category with the same name yields the 409 \<open>DUPLICATE_ERROR\<close> that
  the normalizer makes of the duplicate-key error of the store. Both second requests are
  taken to pass their schema, as the first ones did.
\<close>

theorem duplicate_product_400_duplicate_category_409:
  "(succeeded (reply (productRouter_post e1 req1 st b1)) \<and> cp_name b2 = cp_name b1 \<and>
    toObjectId (cp_categoryId b2) = toObjectId (cp_categoryId b1) \<and>
    createProductSchema (env_isUrl e2) b2 = [] \<longrightarrow>
    productRouter_post e2 req2 (db (productRouter_post e1 req1 st b1)) b2 =
      \<lparr> reply = ErrorEnvelope 400 VALIDATION_ERROR
                  ''Product with this name already exists in this category''
                  (Some (CodeString ''VALIDATION_ERROR'')) [] (reqPath req2) (reqMethod req2),
        db = db (productRouter_post e1 req1 st b1),
        calls = [CategoryFindById (cp_categoryId b2), ProductFindOne] \<rparr>) \<and>
   (succeeded (reply (categoryRouter_post e3 req3 st' c1)) \<and> cc_name c2 = cc_name c1 \<and>
    createCategorySchema c2 = [] \<longrightarrow>
    statusOf (reply (categoryRouter_post e4 req4 (db (categoryRouter_post e3 req3 st' c1)) c2)) = 409 \<and>
    errorTypeOf (reply (categoryRouter_post e4 req4 (db (categoryRouter_post e3 req3 st' c1)) c2)) =
      Some DUPLICATE_ERROR \<and>
    db (categoryRouter_post e4 req4 (db (categoryRouter_post e3 req3 st' c1)) c2) =
      db (categoryRouter_post e3 req3 st' c1))"
  using second_product_refused [of e1 req1 st b1 b2 e2 req2]
    second_category_refused [of e3 req3 st' c1 c2 e4 req4]
  by blast

theorem duplicate_product_400_duplicate_category_409_witness:
  "succeeded (reply (productRouter_post someEnv someReq shop sawBody)) \<and>
   createProductSchema (env_isUrl someEnv) sawBody = [] \<and>
   statusOf (reply (productRouter_post someEnv someReq
       (db (productRouter_post someEnv someReq shop sawBody)) sawBody)) = 400 \<and>
   errorTypeOf (reply (productRouter_post someEnv someReq
       (db (productRouter_post someEnv someReq shop sawBody)) sawBody)) = Some VALIDATION_ERROR \<and>
   succeeded (reply (categoryRouter_post someEnv someReq shop gardenBody)) \<and>
   createCategorySchema gardenBody = [] \<and>
   statusOf (reply (categoryRouter_post someEnv someReq
       (db (categoryRouter_post someEnv someReq shop gardenBody)) gardenBody)) = 409 \<and>
   errorTypeOf (reply (categoryRouter_post someEnv someReq
       (db (categoryRouter_post someEnv someReq shop gardenBody)) gardenBody)) = Some DUPLICATE_ERROR"
proof -
  have p1: "succeeded (reply (productRouter_post someEnv someReq shop sawBody))"
    by code_simp
  have p2: "createProductSchema (env_isUrl someEnv) sawBody = []"
    by code_simp
  have c1: "succeeded (reply (categoryRouter_post someEnv someReq shop gardenBody))"
    by code_simp
  have c2: "createCategorySchema gardenBody = []"
    by code_simp
  note t = duplicate_product_400_duplicate_category_409
    [of someEnv someReq shop sawBody sawBody someEnv someReq
        someEnv someReq shop gardenBody gardenBody someEnv someReq]
  have "productRouter_post someEnv someReq
          (db (productRouter_post someEnv someReq shop sawBody)) sawBody =
      \<lparr> reply = ErrorEnvelope 400 VALIDATION_ERROR
                  ''Product with this name already exists in this category''
                  (Some (CodeString ''VALIDATION_ERROR'')) [] (reqPath someReq) (reqMethod someReq),
        db = db (productRouter_post someEnv someReq shop sawBody),
        calls = [CategoryFindById (cp_categoryId sawBody), ProductFindOne] \<rparr>"
    using t p1 p2 by blast
  then have "statusOf (reply (productRouter_post someEnv someReq
       (db (productRouter_post someEnv someReq shop sawBody)) sawBody)) = 400 \<and>
     errorTypeOf (reply (productRouter_post someEnv someReq
       (db (productRouter_post someEnv someReq shop sawBody)) sawBody)) = Some VALIDATION_ERROR"
    by simp
  moreover have "statusOf (reply (categoryRouter_post someEnv someReq
       (db (categoryRouter_post someEnv someReq shop gardenBody)) gardenBody)) = 409 \<and>
     errorTypeOf (reply (categoryRouter_post someEnv someReq
       (db (categoryRouter_post someEnv someReq shop gardenBody)) gardenBody)) = Some DUPLICATE_ERROR"
    using t c1 c2 by blast
  ultimately show ?thesis using p1 p2 c1 c2 by blast
qed

text \<open>
  What the routes answer. A request whose schema reports issues is answered by the
  validation middleware itself, with status 400 and the body
  \<open>{message: 'Validation failed', errors}\<close> carrying one entry (field path, message) per
  issue, one issue per violated field, all in one response, before any handler or store
  call. Every other response that is not a success is the envelope of \<open>errorHandler\<close>
  for what the handler threw, except the guard for a missing identifier in the category
  handlers, which the routes \<open>GET\<close> and \<open>DELETE /category/:id\<close> alone can reach.
\<close>

theorem validation_failures_and_thrown_errors:
  "(schemaIssues e r \<noteq> [] \<longrightarrow>
      rootRouter e refused req st r =
        \<lparr> reply = ValidationFailed 400 ''Validation failed''
                    (map (\<lambda>err. \<lparr> field = joinDot (issuePath err),
                                  detailMessage = issueMessage err \<rparr>) (schemaIssues e r)),
          db = st, calls = [] \<rparr>) \<and>
   distinct (map issuePath (schemaIssues e r)) \<and>
   (succeeded (reply (rootRouter e refused req st r)) \<or>
    (schemaIssues e r \<noteq> [] \<and>
     reply (rootRouter e refused req st r) =
       ValidationFailed 400 ''Validation failed''
         (map (\<lambda>err. \<lparr> field = joinDot (issuePath err), detailMessage = issueMessage err \<rparr>)
            (schemaIssues e r))) \<or>
    (reply (rootRouter e refused req st r) = GuardFailed 400 ''Category ID is required'' \<and>
     (r = GetCategory [] \<or> r = DeleteCategory [])) \<or>
    (\<exists>err. reply (rootRouter e refused req st r) = errorHandler err req))"
  using rootRouter_invalid [of e r refused req st] distinct_schemaIssues [of e r]
    reply_shapes [of e refused req st r]
  by blast

theorem validation_failures_and_thrown_errors_witness:
  "schemaIssues someEnv badListing \<noteq> [] \<and>
   rootRouter someEnv refusal someReq shop badListing =
     \<lparr> reply = ValidationFailed 400 ''Validation failed''
                 (map (\<lambda>err. \<lparr> field = joinDot (issuePath err),
                               detailMessage = issueMessage err \<rparr>)
                    (schemaIssues someEnv badListing)),
       db = shop, calls = [] \<rparr> \<and>
   map (\<lambda>err. \<lparr> field = joinDot (issuePath err), detailMessage = issueMessage err \<rparr>)
     (schemaIssues someEnv badListing) =
     [\<lparr> field = ''query.page'', detailMessage = Wording ''Page must be a positive number'' \<rparr>,
      \<lparr> field = ''query.limit'', detailMessage = Wording ''Limit must be a positive number'' \<rparr>,
      \<lparr> field = ''query.status'', detailMessage = LibraryWording \<rparr>]"
proof -
  have v: "map (\<lambda>err. \<lparr> field = joinDot (issuePath err), detailMessage = issueMessage err \<rparr>)
     (schemaIssues someEnv badListing) =
     [\<lparr> field = ''query.page'', detailMessage = Wording ''Page must be a positive number'' \<rparr>,
      \<lparr> field = ''query.limit'', detailMessage = Wording ''Limit must be a positive number'' \<rparr>,
      \<lparr> field = ''query.status'', detailMessage = LibraryWording \<rparr>]"
    by code_simp
  then have ne: "schemaIssues someEnv badListing \<noteq> []" by auto
  show ?thesis
    using validation_failures_and_thrown_errors [of someEnv badListing refusal someReq shop] ne v
    by blast
qed

text \<open>
  C5, at the request \<open>GET /product?page=abc\<close>. The claim: every schema violation
  produces a 400 response of type \<open>VALIDATION_ERROR\<close>, emitted through the error
  normalizer in its envelope. The response is the body that \<open>validate\<close> writes itself:
  it has no type, and it is not what \<open>errorHandler\<close> makes of the same issues.
\<close>

theorem schema_violation_answered_by_validate:
  "reply (rootRouter someEnv refusal someReq shop
            (GetProducts (noQuery\<lparr> q_page := Some ''abc'' \<rparr>) [])) =
     ValidationFailed 400 ''Validation failed''
       [\<lparr> field = ''query.page'', detailMessage = Wording ''Page must be a positive number'' \<rparr>] \<and>
   errorTypeOf (reply (rootRouter someEnv refusal someReq shop
            (GetProducts (noQuery\<lparr> q_page := Some ''abc'' \<rparr>) []))) \<noteq> Some VALIDATION_ERROR \<and>
   reply (rootRouter someEnv refusal someReq shop
            (GetProducts (noQuery\<lparr> q_page := Some ''abc'' \<rparr>) [])) \<noteq>
     errorHandler (ZodError (paginationSchema (noQuery\<lparr> q_page := Some ''abc'' \<rparr>))) someReq"
  by (simp add: productRouter_get_def paginationSchema_page digits_0 failing_def validate_def
      formatZodError_def)

text \<open>
  C6, at the requests \<open>GET /category/xyz\<close> and \<open>DELETE /category/xyz\<close>. The claim:
  a malformed identifier is rejected by validation and never reaches the store. The
  product route runs \<open>validateGetProductById\<close> and answers without a store call; the two
  category routes run no validator, the handler calls the store with \<open>xyz\<close>, and the
  response is the normalizer's rendering of the \<open>CastError\<close> that the store throws.
\<close>

theorem category_id_reaches_store:
  "rootRouter e refused req st (GetProduct ''xyz'') =
     \<lparr> reply = ValidationFailed 400 ''Validation failed''
                 [\<lparr> field = ''params.id'', detailMessage = Wording ''Invalid ObjectId format'' \<rparr>],
       db = st, calls = [] \<rparr> \<and>
   rootRouter e refused req st (GetCategory ''xyz'') =
     \<lparr> reply = ErrorEnvelope 400 VALIDATION_ERROR ''Invalid _id'' None
                 [\<lparr> field = ''_id'', detailMessage = Wording ''Invalid ObjectId'' \<rparr>]
                 (reqPath req) (reqMethod req),
       db = st, calls = [CategoryFindById ''xyz''] \<rparr> \<and>
   rootRouter e refused req st (DeleteCategory ''xyz'') =
     \<lparr> reply = ErrorEnvelope 400 VALIDATION_ERROR ''Invalid _id'' None
                 [\<lparr> field = ''_id'', detailMessage = Wording ''Invalid ObjectId'' \<rparr>]
                 (reqPath req) (reqMethod req),
       db = st, calls = [CategoryFindByIdAndDelete ''xyz''] \<rparr>"
  by (simp add: productRouter_getById_def categoryRouter_getById_def categoryRouter_delete_def
      getProductByIdSchema_def objectIdSchema_def invalid_xyz validate_def
      getCategoryById_def deleteCategoryById_def Category_findById_def
      Category_findByIdAndDelete_def toObjectId_def formatMongooseCastError_def)

text \<open>
  C8, at the request \<open>PUT /product/:id\<close> with the body \<open>{"productCode": "X"}\<close>. The
  claim: no update request changes the stored product code. The body passes
  \<open>validateUpdateProduct\<close> (an unknown key is no issue), the handler hands the body as it
  arrived to \<open>findByIdAndUpdate\<close>, and the stored code becomes \<open>X\<close>.
\<close>

theorem update_overwrites_productCode:
  "map p_productCode (products shop) = [''01234564000-1amer5''] \<and>
   map p_productCode (products (db (rootRouter someEnv refusal someReq shop
        (PutProduct hammerId (noUpdate\<lparr> up_productCode := Some ''X'' \<rparr>))))) = [''X'']"
proof
  show "map p_productCode (products shop) = [''01234564000-1amer5'']"
    by (simp add: shop_def hammer_def)
  show "map p_productCode (products (db (rootRouter someEnv refusal someReq shop
        (PutProduct hammerId (noUpdate\<lparr> up_productCode := Some ''X'' \<rparr>))))) = [''X'']"
    by code_simp
qed

text \<open>
  C9. An update of a Product that supplies the identifier of an existing Category and
  succeeds leaves the Product stored with that Category's current name as its
  \<open>categoryName\<close> (and with that Category); an update of a Category, whatever it does,
  leaves every stored Product as it was.
\<close>

theorem category_name_is_a_snapshot:
  "(succeeded (reply (productRouter_put e req st i b)) \<and> up_categoryId b = Some cid \<and>
    Category_findById st cid = Inr (Some c) \<longrightarrow>
    (\<exists>p. Product_findById (db (productRouter_put e req st i b)) i = Inr (Some p) \<and>
         p_categoryName p = Some (c_name c) \<and> toObjectId cid = Some (p_category p))) \<and>
   products (db (categoryRouter_put e' req' st' i' u)) = products st'"
  using productRouter_put_category [of e req st i b cid c]
    categoryRouter_put_products [of e' req' st' i' u]
  by blast

theorem category_name_is_a_snapshot_witness:
  "succeeded (reply (productRouter_put someEnv someReq shop hammerId moveToToys)) \<and>
   up_categoryId moveToToys = Some toysId \<and>
   Category_findById shop toysId = Inr (Some toys) \<and>
   (\<exists>p. Product_findById (db (productRouter_put someEnv someReq shop hammerId moveToToys)) hammerId =
          Inr (Some p) \<and>
        p_categoryName p = Some (c_name toys) \<and> toObjectId toysId = Some (p_category p))"
proof -
  have h1: "succeeded (reply (productRouter_put someEnv someReq shop hammerId moveToToys))"
    by code_simp
  have h2: "up_categoryId moveToToys = Some toysId"
    by (simp add: moveToToys_def)
  have h3: "Category_findById shop toysId = Inr (Some toys)"
    by code_simp
  show ?thesis
    using category_name_is_a_snapshot
      [of someEnv someReq shop hammerId moveToToys toysId toys someEnv someReq shop toysId
          "\<lparr> uc_name = None, uc_description = None \<rparr>"]
      h1 h2 h3
    by blast
qed

text \<open>
  C10, at the requests \<open>GET /product?page=0\<close> and \<open>GET /product?limit=0\<close>. The claim:
  both pass validation and are then replaced by the defaults, so that they return the
  window of \<open>page=1\<close> and of \<open>limit=10\<close>. Both pass validation; the handler keeps the
  strings, asks the store for a skip of \<open>-10\<close> in the first case (which the store
  refuses) and for limit 0 in the second, where \<open>page=1\<close> and \<open>limit=10\<close> ask for skip 0
  and limit 10.
\<close>

theorem zero_page_and_limit_are_kept:
  "schemaIssues e (GetProducts (noQuery\<lparr> q_page := Some ''0'' \<rparr>) matching) = [] \<and>
   schemaIssues e (GetProducts (noQuery\<lparr> q_limit := Some ''0'' \<rparr>) matching) = [] \<and>
   rootRouter e refused req st (GetProducts (noQuery\<lparr> q_page := Some ''0'' \<rparr>) matching) =
     \<lparr> reply = errorHandler refused req, db = st, calls = [ProductFind 10 (- 10)] \<rparr> \<and>
   calls (rootRouter e refused req st (GetProducts (noQuery\<lparr> q_page := Some ''1'' \<rparr>) matching)) =
     [ProductFind 10 0, ProductCountDocuments] \<and>
   calls (rootRouter e refused req st (GetProducts (noQuery\<lparr> q_limit := Some ''0'' \<rparr>) matching)) =
     [ProductFind 0 0, ProductCountDocuments] \<and>
   calls (rootRouter e refused req st (GetProducts (noQuery\<lparr> q_limit := Some ''10'' \<rparr>) matching)) =
     [ProductFind 10 0, ProductCountDocuments]"
  by (simp add: productRouter_get_def paginationSchema_limit paginationSchema_page digits_0
      failing_def validate_def getProducts_def limit_zero page_zero page_one limit_ten
      toNumber_def digitsValue_simps cursor_def)

end
